theory Spec2Isabelle
  imports Complex_Main
begin

section \<open>Data model (types.ts, constants.ts)\<close>

text \<open>
  Every TypeScript \<open>number\<close> is modelled as a \<open>real\<close>: the finite doubles, idealised
  (no rounding, no NaN, no Infinity). An optional field \<open>f?: T\<close> is a \<open>T option\<close>, where
  \<open>None\<close> is JavaScript's \<open>undefined\<close>; such a field is truthy exactly when it is
  \<open>Some True\<close>. Field names carry the name of their interface as a prefix, since several
  interfaces share \<open>x\<close>, \<open>width\<close> and \<open>progress\<close>.
\<close>

datatype PhysicsType = Parabolic | Linear | Exponential | Sine

record Bird =
  bird_x :: real
  bird_y :: real
  bird_velocity :: real
  bird_width :: real
  bird_height :: real
  bird_jumpTime :: real

datatype Phase = Pulling | Stretching | NoPhase

text \<open>
  \<open>waitingToResume\<close> is declared \<open>boolean\<close>, but the object literal that \<open>updateGame\<close>
  builds when the record is beaten leaves the field out, so at run time it can be
  \<open>undefined\<close>: it is an option here.
\<close>

record BlackHoleEffect =
  bh_active :: bool
  bh_progress :: real
  bh_phase :: Phase
  hasTriggeredThisGame :: bool
  waitingToResume :: "bool option"

record Pipe =
  pipe_x :: real
  pipe_topHeight :: real
  pipe_bottomY :: real
  pipe_width :: real
  pipe_passed :: bool
  isGhost :: "bool option"
  isRevealed :: "bool option"
  isElectric :: "bool option"
  electricActive :: "bool option"
  electricCycleTime :: "real option"
  electricOnDuration :: "real option"
  electricOffDuration :: "real option"

record ElectricPillar =
  pillar_id :: string
  pillar_x :: real
  pillar_topY :: real
  pillar_bottomY :: real
  pillar_width :: real
  pillar_isActive :: bool
  pillar_cycleTime :: real
  pillar_onDuration :: real
  pillar_offDuration :: real

datatype RayState = Warning | Active | Fading

record GammaRay =
  ray_id :: string
  ray_y :: real
  ray_width :: real
  ray_height :: real
  ray_warningTime :: real
  ray_activeTime :: real
  ray_state :: RayState
  ray_progress :: real

record GravityFlip =
  flip_id :: string
  flip_x :: real
  flip_width :: real
  flip_isActive :: bool
  flip_duration :: real
  flip_progress :: real

record Vortex =
  vortex_id :: string
  vortex_x :: real
  vortex_y :: real
  vortex_radius :: real
  vortex_strength :: real
  vortex_rotation :: real

text \<open>\<open>particle_color\<close> is \<open>None\<close> when the colour table is read out of range.\<close>

record Particle =
  particle_id :: string
  particle_x :: real
  particle_y :: real
  particle_vx :: real
  particle_vy :: real
  particle_radius :: real
  particle_color :: "string option"

record ChaosState =
  enabled :: bool
  electricPillars :: "ElectricPillar list"
  gammaRays :: "GammaRay list"
  gravityFlips :: "GravityFlip list"
  vortexes :: "Vortex list"
  particles :: "Particle list"
  schrodingerMode :: bool
  gravityMultiplier :: real
  lastSpawnTime :: real

record ChaosHazards =
  hz_electricPillars :: bool
  hz_gammaRays :: bool
  hz_vortexes :: bool
  hz_particles :: bool
  hz_schrodingerPipes :: bool

record GameConfig =
  speed :: real
  jumpHeight :: real
  gravity :: real
  physicsType :: PhysicsType
  pipeGap :: real
  pipeSpacing :: real
  pipeWidth :: real
  chaosEnabled :: bool
  chaosHazards :: ChaosHazards

text \<open>\<open>Partial<GameConfig>\<close>: every key may be absent.\<close>

record ConfigUpdate =
  upd_speed :: "real option"
  upd_jumpHeight :: "real option"
  upd_gravity :: "real option"
  upd_physicsType :: "PhysicsType option"
  upd_pipeGap :: "real option"
  upd_pipeSpacing :: "real option"
  upd_pipeWidth :: "real option"
  upd_chaosEnabled :: "bool option"
  upd_chaosHazards :: "ChaosHazards option"

datatype GameStatus = Ready | Playing | Over

record GameState =
  bird :: Bird
  pipes :: "Pipe list"
  score :: real
  bestScore :: real
  status :: GameStatus
  config :: GameConfig
  blackHole :: BlackHoleEffect
  chaos :: ChaosState

text \<open>
  The module-level mutable state: \<open>frameCount\<close> of engine.ts, \<open>idCounter\<close> of chaos.ts,
  and the process-wide generator behind \<open>Math.random\<close>, a stream of the numbers it will
  return. A function that touches one of them takes the globals and returns them updated.
\<close>

record Globals =
  frameCount :: real
  idCounter :: nat
  rng :: "nat \<Rightarrow> real"

definition random :: "Globals \<Rightarrow> real \<times> Globals" where
  "random g = (rng g 0, g\<lparr>rng := (\<lambda>n. rng g (Suc n))\<rparr>)"

definition truthy :: "bool option \<Rightarrow> bool" where
  "truthy v = (v = Some True)"

definition CANVAS_width :: real where "CANVAS_width = 480"
definition CANVAS_height :: real where "CANVAS_height = 640"
definition GAME_CONFIG_pipeWidth :: real where "GAME_CONFIG_pipeWidth = 60"
definition BIRD_x :: real where "BIRD_x = 80"
definition BIRD_startY :: real where "BIRD_startY = 300"
definition BIRD_width :: real where "BIRD_width = 34"
definition BIRD_height :: real where "BIRD_height = 28"

section \<open>physics.ts\<close>

definition JUMP_DURATION_linear :: real where "JUMP_DURATION_linear = 20"
definition JUMP_DURATION_sine :: real where "JUMP_DURATION_sine = 25"

fun applyGravity :: "real \<Rightarrow> real \<Rightarrow> PhysicsType \<Rightarrow> real \<Rightarrow> real \<Rightarrow> real" where
  "applyGravity velocity grav Linear jumpTime jumpH =
     (if velocity < 0 \<and> jumpTime < JUMP_DURATION_linear then velocity
      else velocity + grav * 1.2)"
| "applyGravity velocity grav Exponential jumpTime jumpH =
     (if velocity < 0 then velocity * (1 - 0.12) + grav * 0.5
      else velocity + grav)"
| "applyGravity velocity grav Sine jumpTime jumpH =
     (if jumpTime < JUMP_DURATION_sine \<and> velocity < 0
      then velocity * 0.8
           + (- jumpH * max 0 (cos (jumpTime / JUMP_DURATION_sine * pi)) * 0.7) * 0.2
           + grav * 0.3
      else velocity + grav)"
| "applyGravity velocity grav Parabolic jumpTime jumpH = velocity + grav"

fun applyJump :: "real \<Rightarrow> PhysicsType \<Rightarrow> real" where
  "applyJump jumpH Linear = - jumpH * 0.5"
| "applyJump jumpH Exponential = - jumpH * 1.8"
| "applyJump jumpH Sine = - jumpH * 0.9"
| "applyJump jumpH Parabolic = - jumpH"

definition updatePosition :: "real \<Rightarrow> real \<Rightarrow> real" where
  "updatePosition y velocity = y + velocity"

section \<open>bird.ts\<close>

definition createBird :: Bird where
  "createBird = \<lparr>bird_x = BIRD_x, bird_y = BIRD_startY, bird_velocity = 0,
                 bird_width = BIRD_width, bird_height = BIRD_height, bird_jumpTime = 0\<rparr>"

definition updateBird :: "Bird \<Rightarrow> real \<Rightarrow> PhysicsType \<Rightarrow> real \<Rightarrow> Bird" where
  "updateBird b grav pt jumpH =
     (let newVelocity = applyGravity (bird_velocity b) grav pt (bird_jumpTime b) jumpH;
          newY = updatePosition (bird_y b) newVelocity
      in b\<lparr>bird_velocity := newVelocity, bird_y := newY,
            bird_jumpTime := bird_jumpTime b + 1\<rparr>)"

definition jumpBird :: "Bird \<Rightarrow> real \<Rightarrow> PhysicsType \<Rightarrow> Bird" where
  "jumpBird b jumpH pt = b\<lparr>bird_velocity := applyJump jumpH pt, bird_jumpTime := 0\<rparr>"

definition isBirdOutOfBounds :: "Bird \<Rightarrow> bool" where
  "isBirdOutOfBounds b =
     (let groundY = CANVAS_height - 80
      in bird_y b + bird_height b > groundY \<or> bird_y b < 0)"

section \<open>pipes.ts\<close>

definition MIN_PIPE_HEIGHT :: real where "MIN_PIPE_HEIGHT = 80"
definition GROUND_HEIGHT :: real where "GROUND_HEIGHT = 80"

definition createPipe :: "Globals \<Rightarrow> real \<Rightarrow> real \<Rightarrow> Pipe \<times> Globals" where
  "createPipe g x gap =
     (let availableHeight = CANVAS_height - GROUND_HEIGHT - gap - (MIN_PIPE_HEIGHT * 2);
          (r, g1) = random g;
          topHeight = MIN_PIPE_HEIGHT + r * availableHeight
      in (\<lparr>pipe_x = x, pipe_topHeight = topHeight, pipe_bottomY = topHeight + gap,
            pipe_width = GAME_CONFIG_pipeWidth, pipe_passed = False,
            isGhost = None, isRevealed = None, isElectric = None, electricActive = None,
            electricCycleTime = None, electricOnDuration = None,
            electricOffDuration = None\<rparr>, g1))"

definition updatePipes :: "Pipe list \<Rightarrow> real \<Rightarrow> Pipe list" where
  "updatePipes ps spd =
     filter (\<lambda>p. pipe_x p + pipe_width p > - 50)
       (map (\<lambda>p. p\<lparr>pipe_x := pipe_x p - spd\<rparr>) ps)"

definition shouldSpawnPipe :: "Pipe list \<Rightarrow> real \<Rightarrow> bool" where
  "shouldSpawnPipe ps spacing =
     (if length ps = 0 then True
      else pipe_x (last ps) < CANVAS_width - spacing)"

definition checkPipeCollision :: "Bird \<Rightarrow> Pipe \<Rightarrow> bool" where
  "checkPipeCollision b p =
     (let birdLeft = bird_x b; birdRight = bird_x b + bird_width b;
          birdTop = bird_y b; birdBottom = bird_y b + bird_height b;
          pipeLeft = pipe_x p; pipeRight = pipe_x p + pipe_width p
      in if birdRight > pipeLeft \<and> birdLeft < pipeRight
         then (if birdTop < pipe_topHeight p then True
               else if birdBottom > pipe_bottomY p then True
               else False)
         else False)"

definition checkAnyCollision :: "Bird \<Rightarrow> Pipe list \<Rightarrow> bool" where
  "checkAnyCollision b ps = list_ex (checkPipeCollision b) ps"

text \<open>
  \<open>countPassedPipes\<close> maps over the pipes with a callback that increments the local
  counter \<open>scored\<close>; the loop threads the counter through the list from left to right.
\<close>

fun countPassedLoop :: "Bird \<Rightarrow> Pipe list \<Rightarrow> real \<Rightarrow> Pipe list \<times> real" where
  "countPassedLoop b [] scored = ([], scored)"
| "countPassedLoop b (p # ps) scored =
     (if \<not> pipe_passed p \<and> pipe_x p + pipe_width p < bird_x b
      then (let (rest, n) = countPassedLoop b ps (scored + 1)
            in (p\<lparr>pipe_passed := True\<rparr> # rest, n))
      else (let (rest, n) = countPassedLoop b ps scored
            in (p # rest, n)))"

definition countPassedPipes :: "Bird \<Rightarrow> Pipe list \<Rightarrow> Pipe list \<times> real" where
  "countPassedPipes b ps = countPassedLoop b ps 0"

section \<open>chaos.ts\<close>

definition SPAWN_INTERVAL :: real where "SPAWN_INTERVAL = 400"
definition SPAWN_CHANCE :: real where "SPAWN_CHANCE = 0.3"

text \<open>Decimal digits of a number, for the template string of \<open>generateId\<close>.\<close>

fun showNat :: "nat \<Rightarrow> string" where
  "showNat n =
     (if n < 10 then [char_of (48 + n)]
      else showNat (n div 10) @ [char_of (48 + n mod 10)])"

declare showNat.simps [simp del]

definition generateId :: "Globals \<Rightarrow> string \<times> Globals" where
  "generateId g =
     (let n = idCounter g + 1
      in (''chaos-'' @ showNat n, g\<lparr>idCounter := n\<rparr>))"

definition createInitialChaos :: ChaosState where
  "createInitialChaos =
     \<lparr>enabled = False, electricPillars = [], gammaRays = [], gravityFlips = [],
      vortexes = [], particles = [], schrodingerMode = False, gravityMultiplier = 1,
      lastSpawnTime = 0\<rparr>"

definition makeElectricPipe :: "Pipe \<Rightarrow> Pipe" where
  "makeElectricPipe p =
     p\<lparr>isElectric := Some True, electricActive := Some False,
       electricCycleTime := Some 0, electricOnDuration := Some 50,
       electricOffDuration := Some 120\<rparr>"

text \<open>
  \<open>v || d\<close> on an optional number: \<open>d\<close> when \<open>v\<close> is \<open>undefined\<close> or \<open>0\<close>.
\<close>

definition orElse :: "real option \<Rightarrow> real \<Rightarrow> real" where
  "orElse v d = (case v of None \<Rightarrow> d | Some n \<Rightarrow> if n = 0 then d else n)"

text \<open>
  The remainder operator \<open>%\<close> on numbers: the quotient is truncated towards zero, so the
  result has the sign of the dividend; with a zero divisor the result is NaN (\<open>None\<close>),
  which every comparison answers with false.
\<close>

definition truncate :: "real \<Rightarrow> int" where
  "truncate q = (if 0 \<le> q then \<lfloor>q\<rfloor> else \<lceil>q\<rceil>)"

definition jsRem :: "real \<Rightarrow> real \<Rightarrow> real option" where
  "jsRem a b = (if b = 0 then None else Some (a - b * of_int (truncate (a / b))))"

definition updateElectricPipe :: "Pipe \<Rightarrow> Pipe" where
  "updateElectricPipe p =
     (if \<not> truthy (isElectric p) then p
      else
        let cycleTime = orElse (electricCycleTime p) 0 + 1;
            onDuration = orElse (electricOnDuration p) 50;
            offDuration = orElse (electricOffDuration p) 120;
            cycleDuration = onDuration + offDuration;
            cyclePosition = jsRem cycleTime cycleDuration
        in p\<lparr>electricCycleTime := Some cycleTime,
              electricActive :=
                Some (case cyclePosition of None \<Rightarrow> False | Some c \<Rightarrow> c < onDuration)\<rparr>)"

definition spawnGammaRay :: "Globals \<Rightarrow> GammaRay \<times> Globals" where
  "spawnGammaRay g =
     (let (i, g1) = generateId g;
          (r, g2) = random g1
      in (\<lparr>ray_id = i, ray_y = 100 + r * (CANVAS_height - 280), ray_width = CANVAS_width,
            ray_height = 15, ray_warningTime = 240, ray_activeTime = 30,
            ray_state = Warning, ray_progress = 0\<rparr>, g2))"

definition spawnVortex :: "Globals \<Rightarrow> Vortex \<times> Globals" where
  "spawnVortex g =
     (let (i, g1) = generateId g;
          (r, g2) = random g1
      in (\<lparr>vortex_id = i, vortex_x = CANVAS_width + 50,
            vortex_y = 150 + r * (CANVAS_height - 380), vortex_radius = 60,
            vortex_strength = 0.15, vortex_rotation = 0\<rparr>, g2))"

text \<open>\<open>xs[i]\<close> for a number \<open>i\<close> that \<open>Math.floor\<close> returned: \<open>undefined\<close> out of range.\<close>

definition index :: "'a list \<Rightarrow> int \<Rightarrow> 'a option" where
  "index xs i = (if 0 \<le> i \<and> i < int (length xs) then Some (xs ! nat i) else None)"

definition colors :: "string list" where
  "colors = [''#00FFFF'', ''#FF00FF'', ''#FFFF00'', ''#00FF00'', ''#FF6600'']"

definition spawnParticle :: "Globals \<Rightarrow> Particle \<times> Globals" where
  "spawnParticle g =
     (let (r0, g0) = random g;
          fromLeft = (r0 > 0.5);
          (i, g1) = generateId g0;
          (r1, g2) = random g1;
          (r2, g3) = random g2;
          (r3, g4) = random g3;
          (r4, g5) = random g4;
          (r5, g6) = random g5
      in (\<lparr>particle_id = i,
            particle_x = (if fromLeft then - 20 else CANVAS_width + 20),
            particle_y = 100 + r1 * (CANVAS_height - 280),
            particle_vx = (if fromLeft then 1 else - 1) * (4 + r2 * 3),
            particle_vy = (r3 - 0.5) * 2,
            particle_radius = 4 + r4 * 2,
            particle_color = index colors \<lfloor>r5 * real (length colors)\<rfloor>\<rparr>, g6))"

text \<open>The callback of the gamma-ray map; \<open>None\<close> is the \<open>null\<close> that the filter drops.\<close>

definition updateGammaRay :: "GammaRay \<Rightarrow> GammaRay option" where
  "updateGammaRay ray =
     (let newProgress = ray_progress ray
            + 1 / (if ray_state ray = Warning then ray_warningTime ray
                   else ray_activeTime ray)
      in if newProgress \<ge> 1
         then (if ray_state ray = Warning
               then Some (ray\<lparr>ray_state := Active, ray_progress := 0\<rparr>)
               else if ray_state ray = Active
               then Some (ray\<lparr>ray_state := Fading, ray_progress := 0\<rparr>)
               else None)
         else Some (ray\<lparr>ray_state := ray_state ray, ray_progress := newProgress\<rparr>))"

definition updateGravityFlip :: "real \<Rightarrow> GravityFlip \<Rightarrow> GravityFlip" where
  "updateGravityFlip spd flip =
     flip\<lparr>flip_x := flip_x flip - spd,
          flip_progress := (if flip_isActive flip
                            then flip_progress flip + 1 / flip_duration flip
                            else flip_progress flip),
          flip_isActive := (flip_isActive flip \<and> flip_progress flip < 1)\<rparr>"

datatype HazardType = Gamma | VortexType | ParticlesType

definition enabledHazardsOf :: "ChaosHazards \<Rightarrow> HazardType list" where
  "enabledHazardsOf hazards =
     (if hz_gammaRays hazards then [Gamma] else [])
     @ (if hz_vortexes hazards then [VortexType] else [])
     @ (if hz_particles hazards then [ParticlesType] else [])"

text \<open>
  The spawn block of \<open>updateChaos\<close>. \<open>Math.random\<close> is only called when the two
  conditions before it in the conjunction hold; an index that selects no hazard type
  falls through the switch, and \<open>lastSpawnTime\<close> is still set.
\<close>

definition spawnHazards ::
  "Globals \<Rightarrow> ChaosState \<Rightarrow> ChaosState \<Rightarrow> real \<Rightarrow> ChaosHazards \<Rightarrow> ChaosState \<times> Globals" where
  "spawnHazards g old newChaos frame hazards =
     (let enabledHazards = enabledHazardsOf hazards
      in if length enabledHazards > 0 \<and> frame - lastSpawnTime old > SPAWN_INTERVAL
         then
           (let (r, g1) = random g
            in if r < SPAWN_CHANCE
               then
                 (let (r', g2) = random g1;
                      hazardType = index enabledHazards \<lfloor>r' * real (length enabledHazards)\<rfloor>;
                      (c3, g3) =
                        (case hazardType of
                           Some Gamma \<Rightarrow>
                             (if length (gammaRays newChaos) < 1
                              then (let (ray, g') = spawnGammaRay g2
                                    in (newChaos\<lparr>gammaRays := gammaRays newChaos @ [ray]\<rparr>, g'))
                              else (newChaos, g2))
                         | Some VortexType \<Rightarrow>
                             (let (v, g') = spawnVortex g2
                              in (newChaos\<lparr>vortexes := vortexes newChaos @ [v]\<rparr>, g'))
                         | Some ParticlesType \<Rightarrow>
                             (let (p1, g') = spawnParticle g2;
                                  (p2, g'') = spawnParticle g'
                              in (newChaos\<lparr>particles := particles newChaos @ [p1, p2]\<rparr>, g''))
                         | None \<Rightarrow> (newChaos, g2))
                  in (c3\<lparr>lastSpawnTime := frame\<rparr>, g3))
               else (newChaos, g1))
         else (newChaos, g))"

definition updateChaos ::
  "Globals \<Rightarrow> ChaosState \<Rightarrow> real \<Rightarrow> real \<Rightarrow> ChaosHazards \<Rightarrow> ChaosState \<times> Globals" where
  "updateChaos g c spd frame hazards =
     (if \<not> enabled c then (c, g)
      else
        let flips = filter (\<lambda>f. flip_x f > - flip_width f)
                      (map (updateGravityFlip spd) (gravityFlips c));
            activeFlip = find flip_isActive flips;
            newChaos = c\<lparr>
              electricPillars := [],
              gammaRays := List.map_filter updateGammaRay (gammaRays c),
              gravityFlips := flips,
              gravityMultiplier := (if activeFlip \<noteq> None then - 1 else 1),
              vortexes := filter (\<lambda>v. vortex_x v > - vortex_radius v * 2)
                            (map (\<lambda>v. v\<lparr>vortex_x := vortex_x v - spd * 0.5,
                                         vortex_rotation := vortex_rotation v + 0.1\<rparr>)
                               (vortexes c)),
              particles := filter (\<lambda>p. particle_x p > - 50 \<and> particle_x p < CANVAS_width + 50
                                      \<and> particle_y p > - 50 \<and> particle_y p < CANVAS_height + 50)
                             (map (\<lambda>p. p\<lparr>particle_x := particle_x p + particle_vx p,
                                          particle_y := particle_y p + particle_vy p\<rparr>)
                                (particles c))\<rparr>;
            (c2, g2) = spawnHazards g c newChaos frame hazards
        in (c2\<lparr>schrodingerMode := hz_schrodingerPipes hazards\<rparr>, g2))"

definition checkElectricPipeCollision :: "Bird \<Rightarrow> Pipe list \<Rightarrow> bool" where
  "checkElectricPipeCollision b ps =
     list_ex (\<lambda>p. truthy (isElectric p) \<and> truthy (electricActive p)
                \<and> (let birdRight = bird_x b + bird_width b; birdLeft = bird_x b
                   in birdRight > pipe_x p \<and> birdLeft < pipe_x p + pipe_width p
                      \<and> (let birdTop = bird_y b; birdBottom = bird_y b + bird_height b
                         in birdTop > pipe_topHeight p \<and> birdBottom < pipe_bottomY p))) ps"

definition checkChaosCollision :: "Bird \<Rightarrow> ChaosState \<Rightarrow> bool" where
  "checkChaosCollision b c =
     (if \<not> enabled c then False
      else if list_ex (\<lambda>ray. ray_state ray = Active
                 \<and> (let birdTop = bird_y b; birdBottom = bird_y b + bird_height b
                    in birdBottom > ray_y ray \<and> birdTop < ray_y ray + ray_height ray))
                (gammaRays c)
      then True
      else list_ex (\<lambda>p. let dx = bird_x b + bird_width b / 2 - particle_x p;
                            dy = bird_y b + bird_height b / 2 - particle_y p;
                            distance = sqrt (dx * dx + dy * dy)
                        in distance < particle_radius p + min (bird_width b) (bird_height b) / 2)
             (particles c))"

definition vortexForceStep :: "Bird \<Rightarrow> Vortex \<Rightarrow> real \<times> real \<Rightarrow> real \<times> real" where
  "vortexForceStep b v acc =
     (let (totalVx, totalVy) = acc;
          dx = vortex_x v - (bird_x b + bird_width b / 2);
          dy = vortex_y v - (bird_y b + bird_height b / 2);
          distance = sqrt (dx * dx + dy * dy)
      in if distance < vortex_radius v \<and> distance > 10
         then (let force = vortex_strength v * (1 - distance / vortex_radius v);
                   tangentX = - dy / distance;
                   tangentY = dx / distance
               in (totalVx + (dx / distance) * force + tangentX * force * 0.5,
                   totalVy + (dy / distance) * force + tangentY * force * 0.5))
         else (totalVx, totalVy))"

definition applyVortexForce :: "Bird \<Rightarrow> ChaosState \<Rightarrow> real \<times> real" where
  "applyVortexForce b c =
     (if \<not> enabled c then (0, 0)
      else fold (vortexForceStep b) (vortexes c) (0, 0))"

definition checkGravityFlipTrigger :: "Bird \<Rightarrow> ChaosState \<Rightarrow> ChaosState" where
  "checkGravityFlipTrigger b c =
     (if \<not> enabled c then c
      else c\<lparr>gravityFlips :=
               map (\<lambda>flip. if \<not> flip_isActive flip \<and> bird_x b > flip_x flip
                               \<and> bird_x b < flip_x flip + flip_width flip
                            then flip\<lparr>flip_isActive := True, flip_progress := 0\<rparr>
                            else flip)
                 (gravityFlips c)\<rparr>)"

definition applySchrodingerEffect :: "Globals \<Rightarrow> Pipe \<Rightarrow> ChaosState \<Rightarrow> Pipe \<times> Globals" where
  "applySchrodingerEffect g p c =
     (if \<not> enabled c \<or> \<not> schrodingerMode c then (p, g)
      else if isGhost p = None
      then (let (r, g1) = random g
            in (p\<lparr>isGhost := Some (r > 0.5), isRevealed := Some False\<rparr>, g1))
      else (p, g))"

definition revealSchrodingerPipe :: "Pipe \<Rightarrow> Bird \<Rightarrow> Pipe" where
  "revealSchrodingerPipe p b =
     (if isGhost p = None \<or> truthy (isRevealed p) then p
      else if bird_x b + bird_width b > pipe_x p - 50
      then p\<lparr>isRevealed := Some True\<rparr>
      else p)"

section \<open>engine.ts\<close>

definition BLACK_HOLE_DURATION :: real where "BLACK_HOLE_DURATION = 150"
definition PULL_PHASE :: real where "PULL_PHASE = 0.4"
definition STRETCH_PHASE :: real where "STRETCH_PHASE = 1.0"

definition createInitialBlackHole :: BlackHoleEffect where
  "createInitialBlackHole =
     \<lparr>bh_active = False, bh_progress = 0, bh_phase = NoPhase,
      hasTriggeredThisGame = False, waitingToResume = Some False\<rparr>"

definition getBlackHolePhase :: "real \<Rightarrow> Phase" where
  "getBlackHolePhase p =
     (if p < PULL_PHASE then Pulling
      else if p < STRETCH_PHASE then Stretching
      else NoPhase)"

definition createInitialState :: "real \<Rightarrow> GameState" where
  "createInitialState best =
     \<lparr>bird = createBird, pipes = [], score = 0, bestScore = best, status = Ready,
      config = \<lparr>speed = 4, jumpHeight = 7, gravity = 0.4, physicsType = Parabolic,
                pipeGap = 160, pipeSpacing = 280, pipeWidth = GAME_CONFIG_pipeWidth,
                chaosEnabled = False,
                chaosHazards = \<lparr>hz_electricPillars = True, hz_gammaRays = True,
                                 hz_vortexes = True, hz_particles = True,
                                 hz_schrodingerPipes = True\<rparr>\<rparr>,
      blackHole = createInitialBlackHole, chaos = createInitialChaos\<rparr>"

definition startGame :: "Globals \<Rightarrow> GameState \<Rightarrow> Globals \<times> GameState" where
  "startGame g s =
     (g\<lparr>frameCount := 0\<rparr>,
      s\<lparr>status := Playing,
        bird := jumpBird (bird s) (jumpHeight (config s)) (physicsType (config s)),
        chaos := createInitialChaos\<lparr>enabled := chaosEnabled (config s)\<rparr>\<rparr>)"

definition restartGame :: "GameState \<Rightarrow> GameState" where
  "restartGame s = (createInitialState (bestScore s))\<lparr>config := config s\<rparr>"

definition handleJump :: "Globals \<Rightarrow> GameState \<Rightarrow> Globals \<times> GameState" where
  "handleJump g s =
     (if bh_active (blackHole s) then (g, s)
      else if truthy (waitingToResume (blackHole s))
      then (g, s\<lparr>bird := jumpBird (bird s) (jumpHeight (config s)) (physicsType (config s)),
                 blackHole := (blackHole s)\<lparr>waitingToResume := Some False\<rparr>\<rparr>)
      else if status s = Ready then startGame g s
      else if status s = Playing
      then (g, s\<lparr>bird := jumpBird (bird s) (jumpHeight (config s)) (physicsType (config s))\<rparr>)
      else if status s = Over then startGame g (restartGame s)
      else (g, s))"

text \<open>The branch of \<open>updateGame\<close> taken while the black hole is active (lines 141 to 182).\<close>

definition blackHoleTick :: "GameState \<Rightarrow> GameState" where
  "blackHoleTick s =
     (let newProgress = bh_progress (blackHole s) + 1 / BLACK_HOLE_DURATION
      in if newProgress \<ge> 1
         then s\<lparr>pipes := [],
                bird := (bird s)\<lparr>bird_velocity := 0, bird_y := CANVAS_height / 2,
                                 bird_x := 80\<rparr>,
                blackHole := (blackHole s)\<lparr>bh_active := False, bh_progress := 0,
                                           bh_phase := NoPhase,
                                           waitingToResume := Some True\<rparr>,
                chaos := (chaos s)\<lparr>electricPillars := [], gammaRays := [],
                                   vortexes := [], particles := []\<rparr>\<rparr>
         else s\<lparr>blackHole := (blackHole s)\<lparr>bh_progress := newProgress,
                                           bh_phase := getBlackHolePhase newProgress\<rparr>\<rparr>)"

text \<open>
  The chaos state of the tick (lines 186 to 194): \<open>updateChaos\<close>, then the gravity-flip
  trigger, both only when the configuration enables chaos.
\<close>

definition tickChaos :: "Globals \<Rightarrow> GameState \<Rightarrow> ChaosState \<times> Globals" where
  "tickChaos g s =
     (let (c1, g1) = (if chaosEnabled (config s)
                      then updateChaos g (chaos s) (speed (config s)) (frameCount g)
                             (chaosHazards (config s))
                      else (chaos s, g));
          newChaos = (if chaosEnabled (config s)
                      then checkGravityFlipTrigger (bird s) c1 else c1)
      in (newChaos, g1))"

text \<open>The bird of the tick (lines 196 to 215).\<close>

definition tickBird :: "GameState \<Rightarrow> ChaosState \<Rightarrow> Bird" where
  "tickBird s newChaos =
     (let effectiveGravity = gravity (config s) * gravityMultiplier newChaos;
          newBird = updateBird (bird s) effectiveGravity (physicsType (config s))
                      (jumpHeight (config s))
      in if chaosEnabled (config s)
         then (let (vx, vy) = applyVortexForce newBird newChaos
               in newBird\<lparr>bird_x := max 20 (min (bird_x newBird + vx) 150),
                          bird_velocity := bird_velocity newBird + vy\<rparr>)
         else newBird)"

text \<open>The pipes of the tick before scoring (lines 217 to 245).\<close>

definition tickPipes ::
  "Globals \<Rightarrow> GameState \<Rightarrow> ChaosState \<Rightarrow> Bird \<Rightarrow> Pipe list \<times> Globals" where
  "tickPipes g s newChaos newBird =
     (let moved = updatePipes (pipes s) (speed (config s));
          (spawned, g3) =
            (if shouldSpawnPipe moved (pipeSpacing (config s))
             then (let (p0, g0) = createPipe g (CANVAS_width + 50) (pipeGap (config s));
                       (p1, g1) = (if chaosEnabled (config s) \<and> schrodingerMode newChaos
                                   then applySchrodingerEffect g0 p0 newChaos
                                   else (p0, g0));
                       (p2, g2) = (if chaosEnabled (config s)
                                      \<and> hz_electricPillars (chaosHazards (config s))
                                   then (let (r, g') = random g1
                                         in if r < 0.4 then (makeElectricPipe p1, g')
                                            else (p1, g'))
                                   else (p1, g1))
                   in (moved @ [p2], g2))
             else (moved, g));
          electrified = (if chaosEnabled (config s)
                            \<and> hz_electricPillars (chaosHazards (config s))
                         then map updateElectricPipe spawned else spawned);
          revealed = (if chaosEnabled (config s)
                      then map (\<lambda>p. revealSchrodingerPipe p newBird) electrified
                      else electrified)
      in (revealed, g3))"

text \<open>
  What a tick of normal gameplay computes up to the scoring step (lines 186 to 252):
  the globals, \<open>newBird\<close>, \<open>newPipes\<close> after scoring, \<open>newChaos\<close> and \<open>newScore\<close>.
\<close>

definition tickWorld ::
  "Globals \<Rightarrow> GameState \<Rightarrow> Globals \<times> Bird \<times> Pipe list \<times> ChaosState \<times> real" where
  "tickWorld g s =
     (let (newChaos, g1) = tickChaos g s;
          newBird = tickBird s newChaos;
          (newPipes, g2) = tickPipes g1 s newChaos newBird;
          (scoredPipes, scored) = countPassedPipes newBird newPipes;
          newScore = score s + scored
      in (g2, newBird, scoredPipes, newChaos, newScore))"

definition updateGame :: "Globals \<Rightarrow> GameState \<Rightarrow> Globals \<times> GameState" where
  "updateGame g s =
     (if status s \<noteq> Playing then (g, s)
      else if truthy (waitingToResume (blackHole s)) then (g, s)
      else
        let g0 = g\<lparr>frameCount := frameCount g + 1\<rparr>
        in if bh_active (blackHole s) then (g0, blackHoleTick s)
           else
             (let (g2, newBird, newPipes, newChaos, newScore) = tickWorld g0 s;
                  newBestScore = max newScore (bestScore s);
                  justBeatBestScore = (newScore > bestScore s \<and> bestScore s > 0
                                       \<and> \<not> hasTriggeredThisGame (blackHole s))
              in if justBeatBestScore
                 then (g2, s\<lparr>bird := newBird, pipes := newPipes, score := newScore,
                             bestScore := newBestScore, chaos := newChaos,
                             blackHole := \<lparr>bh_active = True, bh_progress = 0,
                                           bh_phase = Pulling,
                                           hasTriggeredThisGame = True,
                                           waitingToResume = None\<rparr>\<rparr>)
                 else
                   (let realPipes = filter (\<lambda>p. \<not> truthy (isGhost p)
                                                \<or> \<not> truthy (isRevealed p)) newPipes;
                        hitPipe = checkAnyCollision newBird realPipes;
                        hitBounds = isBirdOutOfBounds newBird;
                        hitChaos = checkChaosCollision newBird newChaos;
                        hitElectric = (chaosEnabled (config s)
                                       \<and> checkElectricPipeCollision newBird newPipes)
                    in if hitPipe \<or> hitBounds \<or> hitChaos \<or> hitElectric
                       then (g2, s\<lparr>bird := newBird, pipes := newPipes, score := newScore,
                                   bestScore := newBestScore, chaos := newChaos,
                                   status := Over\<rparr>)
                       else (g2, s\<lparr>bird := newBird, pipes := newPipes, score := newScore,
                                   bestScore := newBestScore, chaos := newChaos\<rparr>))))"

definition merge :: "'a \<Rightarrow> 'a option \<Rightarrow> 'a" where
  "merge old upd = (case upd of None \<Rightarrow> old | Some v \<Rightarrow> v)"

definition updateConfig :: "GameState \<Rightarrow> ConfigUpdate \<Rightarrow> GameState" where
  "updateConfig s updates =
     (let c = config s;
          newConfig =
            \<lparr>speed = merge (speed c) (upd_speed updates),
             jumpHeight = merge (jumpHeight c) (upd_jumpHeight updates),
             gravity = merge (gravity c) (upd_gravity updates),
             physicsType = merge (physicsType c) (upd_physicsType updates),
             pipeGap = merge (pipeGap c) (upd_pipeGap updates),
             pipeSpacing = merge (pipeSpacing c) (upd_pipeSpacing updates),
             pipeWidth = merge (pipeWidth c) (upd_pipeWidth updates),
             chaosEnabled = merge (chaosEnabled c) (upd_chaosEnabled updates),
             chaosHazards = merge (chaosHazards c) (upd_chaosHazards updates)\<rparr>;
          newChaos = (chaos s)\<lparr>enabled := chaosEnabled newConfig\<rparr>
      in s\<lparr>config := newConfig, chaos := newChaos\<rparr>)"

text \<open>
  The commands of the engine as the game hook issues them, and the states they reach
  from the initial state of a session, whatever the generator returns.
\<close>

datatype Command = Jump | Tick | Configure ConfigUpdate | Restart

fun runCommand :: "Command \<Rightarrow> Globals \<times> GameState \<Rightarrow> Globals \<times> GameState" where
  "runCommand Jump (g, s) = handleJump g s"
| "runCommand Tick (g, s) = updateGame g s"
| "runCommand (Configure u) (g, s) = (g, updateConfig s u)"
| "runCommand Restart (g, s) = (g, restartGame s)"

definition initialGlobals :: "(nat \<Rightarrow> real) \<Rightarrow> Globals" where
  "initialGlobals r = \<lparr>frameCount = 0, idCounter = 0, rng = r\<rparr>"

definition runFrom :: "(nat \<Rightarrow> real) \<Rightarrow> real \<Rightarrow> Command list \<Rightarrow> Globals \<times> GameState" where
  "runFrom r best cmds = fold runCommand cmds (initialGlobals r, createInitialState best)"

section \<open>Concrete inputs\<close>

text \<open>
  A plain pipe (no modifier payload) at horizontal position \<open>x\<close> with the given width, a
  generator that always returns 0, and a game in progress with the default configuration.
\<close>

definition examplePipe :: "real \<Rightarrow> real \<Rightarrow> Pipe" where
  "examplePipe x w =
     \<lparr>pipe_x = x, pipe_topHeight = 200, pipe_bottomY = 360, pipe_width = w,
      pipe_passed = False, isGhost = None, isRevealed = None, isElectric = None,
      electricActive = None, electricCycleTime = None, electricOnDuration = None,
      electricOffDuration = None\<rparr>"

definition exampleGlobals :: Globals where
  "exampleGlobals = initialGlobals (\<lambda>n. 0)"

definition exampleState :: "real \<Rightarrow> real \<Rightarrow> Pipe list \<Rightarrow> GameState" where
  "exampleState sc best ps =
     (createInitialState best)\<lparr>status := Playing, score := sc, pipes := ps\<rparr>"

text \<open>A state one tick before the end of the black-hole animation.\<close>

definition blackHoleState :: "GameStatus \<Rightarrow> GravityFlip list \<Rightarrow> GameState" where
  "blackHoleState st fl =
     (exampleState 5 4 [examplePipe 200 60])
       \<lparr>status := st,
        blackHole := \<lparr>bh_active = True, bh_progress = 149 / 150, bh_phase = Stretching,
                      hasTriggeredThisGame = True, waitingToResume = None\<rparr>,
        chaos := createInitialChaos\<lparr>gravityFlips := fl\<rparr>\<rparr>"

definition enableChaos :: ConfigUpdate where
  "enableChaos =
     \<lparr>upd_speed = None, upd_jumpHeight = None, upd_gravity = None, upd_physicsType = None,
      upd_pipeGap = None, upd_pipeSpacing = None, upd_pipeWidth = None,
      upd_chaosEnabled = Some True, upd_chaosHazards = None\<rparr>"

text \<open>
  A run that breaks the record: with best score 1, speed 10, jump height 3, gravity 0.05,
  gap 250 and spacing 150 (all within the ranges of the control panel) and a generator
  that always returns 0, the game is started and ticks 223 times. The second pipe is
  passed on tick 74, which fires the black hole; tick 223 is the last but one of the
  animation.
\<close>

definition recordConfig :: ConfigUpdate where
  "recordConfig =
     \<lparr>upd_speed = Some 10, upd_jumpHeight = Some 3, upd_gravity = Some 0.05,
      upd_physicsType = None, upd_pipeGap = Some 250, upd_pipeSpacing = Some 150,
      upd_pipeWidth = None, upd_chaosEnabled = None, upd_chaosHazards = None\<rparr>"

definition recordRun :: "Command list" where
  "recordRun = [Configure recordConfig, Jump] @ replicate 223 Tick"





section \<open>Evaluation and decomposition lemmas\<close>

lemmas const_defs =
  CANVAS_width_def CANVAS_height_def GAME_CONFIG_pipeWidth_def BIRD_x_def BIRD_startY_def
  BIRD_width_def BIRD_height_def MIN_PIPE_HEIGHT_def GROUND_HEIGHT_def
  SPAWN_INTERVAL_def SPAWN_CHANCE_def BLACK_HOLE_DURATION_def PULL_PHASE_def
  STRETCH_PHASE_def

lemmas example_defs =
  examplePipe_def exampleGlobals_def exampleState_def blackHoleState_def
  enableChaos_def initialGlobals_def
  createInitialState_def createInitialBlackHole_def createInitialChaos_def createBird_def

lemmas chaos_tick_defs =
  tickChaos_def updateChaos_def spawnHazards_def enabledHazardsOf_def
  checkGravityFlipTrigger_def updateGravityFlip_def List.map_filter_def Let_def

lemmas bird_tick_defs =
  tickBird_def updateBird_def updatePosition_def applyVortexForce_def Let_def

lemmas pipe_tick_defs =
  tickPipes_def updatePipes_def shouldSpawnPipe_def createPipe_def random_def
  applySchrodingerEffect_def makeElectricPipe_def updateElectricPipe_def
  revealSchrodingerPipe_def truthy_def Let_def

lemmas collision_defs =
  checkAnyCollision_def checkPipeCollision_def isBirdOutOfBounds_def
  checkChaosCollision_def checkElectricPipeCollision_def truthy_def Let_def

text \<open>
  A tick of normal gameplay, from the values of its stages: the chaos state, the bird,
  the pipes and the scoring.
\<close>

lemma updateGame_tick:
  assumes "status s = Playing" "\<not> truthy (waitingToResume (blackHole s))"
    and "\<not> bh_active (blackHole s)"
    and "tickChaos (g\<lparr>frameCount := frameCount g + 1\<rparr>) s = (nc, g1)"
    and "tickBird s nc = nb"
    and "tickPipes g1 s nc nb = (np, g2)"
    and "countPassedPipes nb np = (sp, k)"
  shows "updateGame g s =
     (g2,
      if score s + k > bestScore s \<and> bestScore s > 0 \<and> \<not> hasTriggeredThisGame (blackHole s)
      then s\<lparr>bird := nb, pipes := sp, score := score s + k,
             bestScore := max (score s + k) (bestScore s), chaos := nc,
             blackHole := \<lparr>bh_active = True, bh_progress = 0, bh_phase = Pulling,
                           hasTriggeredThisGame = True, waitingToResume = None\<rparr>\<rparr>
      else if checkAnyCollision nb
                (filter (\<lambda>p. \<not> truthy (isGhost p) \<or> \<not> truthy (isRevealed p)) sp)
              \<or> isBirdOutOfBounds nb \<or> checkChaosCollision nb nc
              \<or> (chaosEnabled (config s) \<and> checkElectricPipeCollision nb sp)
      then s\<lparr>bird := nb, pipes := sp, score := score s + k,
             bestScore := max (score s + k) (bestScore s), chaos := nc, status := Over\<rparr>
      else s\<lparr>bird := nb, pipes := sp, score := score s + k,
             bestScore := max (score s + k) (bestScore s), chaos := nc\<rparr>)"
  using assms by (simp add: updateGame_def tickWorld_def Let_def)

lemma tickWorld_stages:
  assumes "tickChaos g s = (nc, g1)" "tickBird s nc = nb" "tickPipes g1 s nc nb = (np, g2)"
    and "countPassedPipes nb np = (sp, k)"
  shows "tickWorld g s = (g2, nb, sp, nc, score s + k)"
  using assms by (simp add: tickWorld_def)

lemma tickWorld_cases:
  obtains nc g1 np g2 sp k where
    "tickChaos g s = (nc, g1)" "tickPipes g1 s nc (tickBird s nc) = (np, g2)"
    "countPassedPipes (tickBird s nc) np = (sp, k)"
    "tickWorld g s = (g2, tickBird s nc, sp, nc, score s + k)"
proof -
  obtain nc g1 where a: "tickChaos g s = (nc, g1)" by (cases "tickChaos g s")
  obtain np g2 where b: "tickPipes g1 s nc (tickBird s nc) = (np, g2)"
    by (cases "tickPipes g1 s nc (tickBird s nc)")
  obtain sp k where c: "countPassedPipes (tickBird s nc) np = (sp, k)"
    by (cases "countPassedPipes (tickBird s nc) np")
  from a b c tickWorld_stages[OF a refl b c] that show thesis by blast
qed

text \<open>The spawner leaves the flag, the zones and the multiplier of the chaos state alone.\<close>

lemma spawnHazards_frame:
  "enabled (fst (spawnHazards g old c frame hz)) = enabled c"
  "gravityFlips (fst (spawnHazards g old c frame hz)) = gravityFlips c"
  "gravityMultiplier (fst (spawnHazards g old c frame hz)) = gravityMultiplier c"
  by (simp_all add: spawnHazards_def Let_def split_def
        split: option.splits HazardType.splits)

lemma tickChaos_enabled: "enabled (fst (tickChaos g s)) = enabled (chaos s)"
  by (simp add: tickChaos_def updateChaos_def spawnHazards_frame checkGravityFlipTrigger_def
        Let_def split_def)

text \<open>Evaluation of whole runs from the initial state.\<close>

lemmas run_defs =
  runFrom_def updateGame_def tickWorld_def tickChaos_def tickBird_def tickPipes_def
  blackHoleTick_def handleJump_def startGame_def restartGame_def updateConfig_def merge_def
  updateChaos_def spawnHazards_def enabledHazardsOf_def checkGravityFlipTrigger_def
  applyVortexForce_def checkChaosCollision_def checkElectricPipeCollision_def
  applySchrodingerEffect_def revealSchrodingerPipe_def updateElectricPipe_def
  updateBird_def jumpBird_def updatePosition_def isBirdOutOfBounds_def createPipe_def
  updatePipes_def shouldSpawnPipe_def checkPipeCollision_def checkAnyCollision_def
  countPassedPipes_def random_def truthy_def makeElectricPipe_def getBlackHolePhase_def
  List.map_filter_def const_defs example_defs Let_def eval_nat_numeral

lemma runFrom_snoc: "runFrom r best (cmds @ [c]) = runCommand c (runFrom r best cmds)"
  by (simp add: runFrom_def)

lemma recordRun_state:
  "runFrom (\<lambda>n. 0) 1 recordRun =
     (\<lparr>frameCount = 223, idCounter = 0, rng = \<lambda>n. 0\<rparr>,
      \<lparr>bird = \<lparr>bird_x = 80, bird_y = 216.75, bird_velocity = 0.7, bird_width = 34,
                bird_height = 28, bird_jumpTime = 74\<rparr>,
       pipes = [(examplePipe 10 60)\<lparr>pipe_topHeight := 80, pipe_bottomY := 330,
                                     pipe_passed := True\<rparr>,
                (examplePipe 220 60)\<lparr>pipe_topHeight := 80, pipe_bottomY := 330\<rparr>,
                (examplePipe 430 60)\<lparr>pipe_topHeight := 80, pipe_bottomY := 330\<rparr>],
       score = 2, bestScore = 2, status = Playing,
       config = \<lparr>speed = 10, jumpHeight = 3, gravity = 0.05, physicsType = Parabolic,
                 pipeGap = 250, pipeSpacing = 150, pipeWidth = 60, chaosEnabled = False,
                 chaosHazards = \<lparr>hz_electricPillars = True, hz_gammaRays = True,
                                 hz_vortexes = True, hz_particles = True,
                                 hz_schrodingerPipes = True\<rparr>\<rparr>,
       blackHole = \<lparr>bh_active = True, bh_progress = 149 / 150, bh_phase = Stretching,
                    hasTriggeredThisGame = True, waitingToResume = None\<rparr>,
       chaos = createInitialChaos\<rparr>)"
  by (simp add: recordRun_def recordConfig_def run_defs cong: let_weak_cong)

section \<open>Scoring (countPassedPipes)\<close>

lemma countPassedLoop_eq:
  "countPassedLoop b ps n =
     (map (\<lambda>p. if \<not> pipe_passed p \<and> pipe_x p + pipe_width p < bird_x b
                then p\<lparr>pipe_passed := True\<rparr> else p) ps,
      n + real (length (filter (\<lambda>p. \<not> pipe_passed p \<and> pipe_x p + pipe_width p < bird_x b) ps)))"
  by (induction ps arbitrary: n) (auto simp: Let_def)

lemma card_index_filter: "card {i. i < length ps \<and> P (ps ! i)} = length (filter P ps)"
  by (simp add: length_filter_conv_card)

lemma tick_scoring:
  assumes "status s = Playing" "\<not> truthy (waitingToResume (blackHole s))"
    "\<not> bh_active (blackHole s)"
  shows "(let g0 = g\<lparr>frameCount := frameCount g + 1\<rparr>;
              nc = fst (tickChaos g0 s);
              nb = tickBird s nc;
              np = fst (tickPipes (snd (tickChaos g0 s)) s nc nb);
              s' = snd (updateGame g s)
          in pipes s' = fst (countPassedPipes nb np)
             \<and> score s' = score s + snd (countPassedPipes nb np))"
  using assms by (simp add: updateGame_def tickWorld_def Let_def split_def)

text \<open>
  C2. \<open>countPassedPipes\<close> marks exactly the pipes that were not yet passed and whose
  trailing edge \<open>x + width\<close> is strictly left of the bird's \<open>x\<close>, changing no other field;
  the count it returns is the number of pipes so marked, which is the number of positions
  whose flag went from false to true; a pipe already passed stays passed; a second call on
  the result counts nothing; the other steps of a tick (scrolling, the electric cycle,
  the reveal) keep the flag of every pipe they keep; and in a tick of normal gameplay the
  score grows by exactly that count.
\<close>

theorem countPassedPipes_exactly_once:
  "fst (countPassedPipes b ps) =
     map (\<lambda>p. if \<not> pipe_passed p \<and> pipe_x p + pipe_width p < bird_x b
               then p\<lparr>pipe_passed := True\<rparr> else p) ps
   \<and> snd (countPassedPipes b ps) =
       real (length (filter (\<lambda>p. \<not> pipe_passed p \<and> pipe_x p + pipe_width p < bird_x b) ps))
   \<and> (\<forall>i < length ps. pipe_passed (ps ! i) \<longrightarrow> pipe_passed (fst (countPassedPipes b ps) ! i))
   \<and> snd (countPassedPipes b ps) =
       real (card {i. i < length ps \<and> \<not> pipe_passed (ps ! i)
                      \<and> pipe_passed (fst (countPassedPipes b ps) ! i)})
   \<and> snd (countPassedPipes b (fst (countPassedPipes b ps))) = 0
   \<and> pipe_passed (updateElectricPipe p) = pipe_passed p
   \<and> pipe_passed (revealSchrodingerPipe p b) = pipe_passed p
   \<and> map pipe_passed (updatePipes ps spd)
       = map pipe_passed (filter (\<lambda>p. pipe_x p - spd + pipe_width p > - 50) ps)
   \<and> (status s = Playing \<and> \<not> truthy (waitingToResume (blackHole s))
        \<and> \<not> bh_active (blackHole s) \<longrightarrow>
       (let g0 = g\<lparr>frameCount := frameCount g + 1\<rparr>;
            nc = fst (tickChaos g0 s);
            nb = tickBird s nc;
            np = fst (tickPipes (snd (tickChaos g0 s)) s nc nb);
            s' = snd (updateGame g s)
        in pipes s' = fst (countPassedPipes nb np)
           \<and> score s' = score s + snd (countPassedPipes nb np)))"
proof -
  let ?c = "\<lambda>p. \<not> pipe_passed p \<and> pipe_x p + pipe_width p < bird_x b"
  let ?m = "\<lambda>p. if ?c p then p\<lparr>pipe_passed := True\<rparr> else p"
  have f: "fst (countPassedPipes b ps) = map ?m ps"
    and n: "snd (countPassedPipes b ps) = real (length (filter ?c ps))"
    by (simp_all add: countPassedPipes_def countPassedLoop_eq)
  have keep: "\<forall>i < length ps. pipe_passed (ps ! i) \<longrightarrow> pipe_passed (map ?m ps ! i)"
    by simp
  have "{i. i < length ps \<and> \<not> pipe_passed (ps ! i) \<and> pipe_passed (map ?m ps ! i)}
        = {i. i < length ps \<and> ?c (ps ! i)}"
    by (auto split: if_splits)
  then have cnt: "real (card {i. i < length ps \<and> \<not> pipe_passed (ps ! i)
                      \<and> pipe_passed (map ?m ps ! i)}) = real (length (filter ?c ps))"
    using card_index_filter[of ps ?c] by simp
  have "filter ?c (map ?m ps) = []"
    by (induction ps) auto
  then have again: "snd (countPassedPipes b (map ?m ps)) = 0"
    by (simp add: countPassedPipes_def countPassedLoop_eq)
  have pres: "pipe_passed (updateElectricPipe p) = pipe_passed p"
    "pipe_passed (revealSchrodingerPipe p b) = pipe_passed p"
    by (simp_all add: updateElectricPipe_def revealSchrodingerPipe_def Let_def)
  have moved: "map pipe_passed (updatePipes ps spd)
       = map pipe_passed (filter (\<lambda>p. pipe_x p - spd + pipe_width p > - 50) ps)"
    by (induction ps) (simp_all add: updatePipes_def)
  show ?thesis
    unfolding f n using keep cnt again pres moved tick_scoring[of s g]
    by (simp only: simp_thms) blast
qed

text \<open>
  The bird at \<open>x = 80\<close> and three pipes: one behind the bird and unmarked, one behind it
  and already marked, one ahead. One pipe is marked and counted, and the tick of a game
  with score 4 returns score 5.
\<close>

theorem countPassedPipes_exactly_once_witness:
  "map pipe_passed (fst (countPassedPipes createBird
      [examplePipe 10 60, (examplePipe 0 60)\<lparr>pipe_passed := True\<rparr>, examplePipe 300 60]))
     = [True, True, False]
   \<and> snd (countPassedPipes createBird
      [examplePipe 10 60, (examplePipe 0 60)\<lparr>pipe_passed := True\<rparr>, examplePipe 300 60]) = 1
   \<and> status (exampleState 4 9 [examplePipe 10 60, examplePipe 300 60]) = Playing
   \<and> \<not> truthy (waitingToResume (blackHole (exampleState 4 9 [examplePipe 10 60, examplePipe 300 60])))
   \<and> \<not> bh_active (blackHole (exampleState 4 9 [examplePipe 10 60, examplePipe 300 60]))
   \<and> score (snd (updateGame exampleGlobals
        (exampleState 4 9 [examplePipe 10 60, examplePipe 300 60]))) = 5"
proof -
  let ?s = "exampleState 4 9 [examplePipe 10 60, examplePipe 300 60]"
  let ?ps = "[examplePipe 10 60, (examplePipe 0 60)\<lparr>pipe_passed := True\<rparr>, examplePipe 300 60]"
  have pre: "status ?s = Playing" "\<not> truthy (waitingToResume (blackHole ?s))"
    "\<not> bh_active (blackHole ?s)"
    by (simp_all add: example_defs truthy_def)
  have c: "tickChaos (exampleGlobals\<lparr>frameCount := frameCount exampleGlobals + 1\<rparr>) ?s
             = (createInitialChaos, exampleGlobals\<lparr>frameCount := 1\<rparr>)"
    by (simp add: chaos_tick_defs const_defs example_defs)
  have b: "tickBird ?s createInitialChaos
             = createBird\<lparr>bird_velocity := 0.4, bird_y := 300.4, bird_jumpTime := 1\<rparr>"
    by (simp add: bird_tick_defs const_defs example_defs)
  have p: "fst (tickPipes (exampleGlobals\<lparr>frameCount := 1\<rparr>) ?s createInitialChaos
             (createBird\<lparr>bird_velocity := 0.4, bird_y := 300.4, bird_jumpTime := 1\<rparr>))
             = [examplePipe 6 60, examplePipe 296 60]"
    by (simp add: pipe_tick_defs const_defs example_defs)
  have k: "snd (countPassedPipes
             (createBird\<lparr>bird_velocity := 0.4, bird_y := 300.4, bird_jumpTime := 1\<rparr>)
             [examplePipe 6 60, examplePipe 296 60]) = 1"
    by (simp add: countPassedPipes_def const_defs example_defs)
  have m: "map pipe_passed (map (\<lambda>p. if \<not> pipe_passed p \<and> pipe_x p + pipe_width p < bird_x createBird
               then p\<lparr>pipe_passed := True\<rparr> else p) ?ps) = [True, True, False]"
    "real (length (filter (\<lambda>p. \<not> pipe_passed p \<and> pipe_x p + pipe_width p < bird_x createBird) ?ps)) = 1"
    by (simp_all add: const_defs example_defs)
  note t = countPassedPipes_exactly_once[of createBird ?ps "examplePipe 0 60" 4 ?s exampleGlobals]
  have t6: "score (snd (updateGame exampleGlobals ?s)) = score ?s +
           snd (countPassedPipes (tickBird ?s (fst (tickChaos (exampleGlobals\<lparr>frameCount := frameCount exampleGlobals + 1\<rparr>) ?s)))
             (fst (tickPipes (snd (tickChaos (exampleGlobals\<lparr>frameCount := frameCount exampleGlobals + 1\<rparr>) ?s)) ?s
                (fst (tickChaos (exampleGlobals\<lparr>frameCount := frameCount exampleGlobals + 1\<rparr>) ?s))
                (tickBird ?s (fst (tickChaos (exampleGlobals\<lparr>frameCount := frameCount exampleGlobals + 1\<rparr>) ?s))))))"
    using t[THEN conjunct2, THEN conjunct2, THEN conjunct2, THEN conjunct2, THEN conjunct2,
        THEN conjunct2, THEN conjunct2, THEN conjunct2]
      pre by (simp add: Let_def)
  have "score (snd (updateGame exampleGlobals ?s)) = 5"
    unfolding t6 c fst_conv snd_conv b p k by (simp add: example_defs)
  then show ?thesis
    using pre m t[THEN conjunct1] t[THEN conjunct2, THEN conjunct1] by simp
qed


section \<open>Electrified pipes (makeElectricPipe, updateElectricPipe)\<close>

lemma orElse_zero: "orElse (Some t) 0 = t"
  by (simp add: orElse_def)

lemma jsRem_nat: "jsRem (real n) 170 = Some (real (n mod 170))"
proof -
  have fl: "\<lfloor>real n / 170\<rfloor> = int (n div 170)"
    using floor_divide_of_nat_eq[of n 170, where ?'a = real] by simp
  have "real n = real (170 * (n div 170)) + real (n mod 170)"
    by (metis mult_div_mod_eq of_nat_add)
  then have "real n - 170 * real (n div 170) = real (n mod 170)"
    by simp
  then show ?thesis
    by (simp add: jsRem_def truncate_def fl)
qed

lemma updateElectricPipe_cycle:
  assumes "isElectric p = Some True" "electricCycleTime p = Some (real n)"
    "electricOnDuration p = Some 50" "electricOffDuration p = Some 120"
  shows "updateElectricPipe p =
           p\<lparr>electricCycleTime := Some (real (Suc n)),
             electricActive := Some (Suc n mod 170 < 50)\<rparr>"
proof -
  have c: "orElse (electricCycleTime p) 0 + 1 = real (Suc n)"
    using assms(2) by (simp add: orElse_zero)
  have on: "orElse (electricOnDuration p) 50 = 50"
    and off: "orElse (electricOffDuration p) 120 = 120"
    using assms(3,4) by (simp_all add: orElse_def)
  have r: "jsRem (real (Suc n)) (50 + 120) = Some (real (Suc n mod 170))"
    using jsRem_nat[of "Suc n"] by simp
  have lt: "(real (Suc n mod 170) < 50) = (Suc n mod 170 < 50)"
    using of_nat_less_iff[of "Suc n mod 170" 50, where ?'a = real] by simp
  show ?thesis
    unfolding updateElectricPipe_def Let_def c on off r
    using assms(1) lt by (simp add: truthy_def)
qed

lemma electric_iterate:
  "(updateElectricPipe ^^ n) (makeElectricPipe p) =
     (makeElectricPipe p)\<lparr>electricCycleTime := Some (real n),
        electricActive := Some (0 < n \<and> n mod 170 < 50)\<rparr>"
proof (induction n)
  case 0
  show ?case by (simp add: makeElectricPipe_def)
next
  case (Suc n)
  show ?case
    by (simp only: funpow.simps o_apply Suc.IH)
       (subst updateElectricPipe_cycle[where n = n], simp_all add: makeElectricPipe_def)
qed

text \<open>
  C7. A pipe electrified by \<open>makeElectricPipe\<close> has on-duration 50 and off-duration 120
  and starts inactive; after \<open>n \<ge> 1\<close> applications of \<open>updateElectricPipe\<close> its cycle time
  is \<open>n\<close> and it is active exactly when \<open>n mod 170 < 50\<close>: active at cycle positions 0 to
  49, inactive at 50 to 169, with period 170.
\<close>

theorem electric_duty_cycle:
  "electricOnDuration (makeElectricPipe p) = Some 50
   \<and> electricOffDuration (makeElectricPipe p) = Some 120
   \<and> electricActive (makeElectricPipe p) = Some False
   \<and> electricCycleTime ((updateElectricPipe ^^ n) (makeElectricPipe p)) = Some (real n)
   \<and> (0 < n \<longrightarrow>
        electricActive ((updateElectricPipe ^^ n) (makeElectricPipe p)) = Some (n mod 170 < 50))"
  by (simp add: electric_iterate) (simp add: makeElectricPipe_def)

text \<open>The last active tick of the first cycle, the first inactive one, and one period later.\<close>

theorem electric_duty_cycle_witness:
  "electricActive ((updateElectricPipe ^^ 49) (makeElectricPipe (examplePipe 530 60))) = Some True
   \<and> electricActive ((updateElectricPipe ^^ 50) (makeElectricPipe (examplePipe 530 60))) = Some False
   \<and> electricActive ((updateElectricPipe ^^ 169) (makeElectricPipe (examplePipe 530 60))) = Some False
   \<and> electricActive ((updateElectricPipe ^^ 170) (makeElectricPipe (examplePipe 530 60))) = Some True"
  using electric_duty_cycle[of "examplePipe 530 60" 49]
    electric_duty_cycle[of "examplePipe 530 60" 50]
    electric_duty_cycle[of "examplePipe 530 60" 169]
    electric_duty_cycle[of "examplePipe 530 60" 170]
  by simp

section \<open>Scrolling and culling (updatePipes)\<close>

text \<open>
  C8, as the code has it. \<open>updatePipes\<close> shifts every pipe left by the speed and keeps a
  pipe exactly when its shifted trailing edge is strictly greater than \<open>-50\<close>, that is when
  \<open>x - speed + width > -50\<close> for the pipe as it entered. A pipe entering with \<open>x = -110\<close>
  and width 60 is removed exactly when the speed is not negative; a pipe entering with
  \<open>x = -100\<close> and width 60 is retained exactly when the speed is below 10.
\<close>

theorem updatePipes_retention:
  "updatePipes ps spd =
     map (\<lambda>p. p\<lparr>pipe_x := pipe_x p - spd\<rparr>)
       (filter (\<lambda>p. pipe_x p - spd + pipe_width p > - 50) ps)
   \<and> (\<forall>p \<in> set (updatePipes ps spd). pipe_x p + pipe_width p > - 50)
   \<and> ((updatePipes [p\<lparr>pipe_x := - 110, pipe_width := 60\<rparr>] spd = []) = (0 \<le> spd))
   \<and> ((updatePipes [p\<lparr>pipe_x := - 100, pipe_width := 60\<rparr>] spd
         = [p\<lparr>pipe_x := - 100 - spd, pipe_width := 60\<rparr>]) = (spd < 10))"
proof -
  have "updatePipes ps spd =
     map (\<lambda>p. p\<lparr>pipe_x := pipe_x p - spd\<rparr>)
       (filter (\<lambda>p. pipe_x p - spd + pipe_width p > - 50) ps)"
    by (induction ps) (simp_all add: updatePipes_def)
  moreover have "\<forall>p \<in> set (updatePipes ps spd). pipe_x p + pipe_width p > - 50"
    by (simp add: updatePipes_def)
  moreover have "(updatePipes [p\<lparr>pipe_x := - 110, pipe_width := 60\<rparr>] spd = []) = (0 \<le> spd)"
    by (auto simp: updatePipes_def)
  moreover have "(updatePipes [p\<lparr>pipe_x := - 100, pipe_width := 60\<rparr>] spd
         = [p\<lparr>pipe_x := - 100 - spd, pipe_width := 60\<rparr>]) = (spd < 10)"
    by (auto simp: updatePipes_def)
  ultimately show ?thesis by blast
qed

text \<open>At the default speed 4 the first pipe is removed and the second is retained.\<close>

theorem updatePipes_retention_witness:
  "updatePipes [examplePipe (- 110) 60] 4 = []
   \<and> updatePipes [examplePipe (- 100) 60] 4 = [examplePipe (- 104) 60]"
  using updatePipes_retention[of "[examplePipe (- 100) 60]" 4 "examplePipe 0 0"]
  by (simp add: examplePipe_def)

text \<open>
  C8 as stated fails: at speed 10, the largest speed the configuration offers, the pipe
  entering with \<open>x = -100\<close> and width 60 is removed, not retained.
\<close>

theorem updatePipes_boundary_counterexample:
  "updatePipes [examplePipe (- 100) 60] 10 = []"
  by (simp add: updatePipes_def examplePipe_def)

section \<open>The jump command during the black-hole animation\<close>

text \<open>
  C10. While the black hole is active, \<open>handleJump\<close> returns the state, and the module
  globals, unchanged, whatever the status.
\<close>

theorem handleJump_ignored_while_active:
  "bh_active (blackHole s) \<Longrightarrow> handleJump g s = (g, s)"
  by (simp add: handleJump_def)

theorem handleJump_ignored_while_active_witness:
  "bh_active (blackHole (blackHoleState Over []))
   \<and> handleJump exampleGlobals (blackHoleState Over []) = (exampleGlobals, blackHoleState Over [])
   \<and> handleJump exampleGlobals (blackHoleState Playing []) = (exampleGlobals, blackHoleState Playing [])"
proof -
  have a: "bh_active (blackHole (blackHoleState Over []))"
    and b: "bh_active (blackHole (blackHoleState Playing []))"
    by (simp_all add: blackHoleState_def)
  show ?thesis
    using a handleJump_ignored_while_active[OF a] handleJump_ignored_while_active[OF b]
    by simp
qed


section \<open>The record-breaking trigger (updateGame, lines 254 to 275)\<close>

lemma updateGame_keeps_triggered:
  "hasTriggeredThisGame (blackHole s) \<Longrightarrow>
     hasTriggeredThisGame (blackHole (snd (updateGame g s)))"
  by (cases "tickWorld (g\<lparr>frameCount := frameCount g + 1\<rparr>) s")
     (simp add: updateGame_def blackHoleTick_def Let_def)

lemma updateGame_no_second_trigger:
  "hasTriggeredThisGame (blackHole s) \<Longrightarrow> \<not> bh_active (blackHole s) \<Longrightarrow>
     \<not> bh_active (blackHole (snd (updateGame g s)))"
  by (cases "tickWorld (g\<lparr>frameCount := frameCount g + 1\<rparr>) s")
     (simp add: updateGame_def Let_def)

lemma commands_keep_triggered:
  "hasTriggeredThisGame (blackHole s) \<Longrightarrow>
     hasTriggeredThisGame (blackHole (updateConfig s u))
     \<and> (status s \<noteq> Over \<or> bh_active (blackHole s) \<or> truthy (waitingToResume (blackHole s))
          \<longrightarrow> hasTriggeredThisGame (blackHole (snd (handleJump g s))))"
  by (cases "status s") (simp_all add: updateConfig_def handleJump_def startGame_def Let_def)

text \<open>
  C1. In a state with status \<open>playing\<close> where the black hole is neither active nor waiting
  to resume, let the tick's stages give the score \<open>ns\<close> after scoring. If \<open>ns\<close> exceeds the
  previous best, the previous best is positive and the event has not fired in this game,
  then \<open>updateGame\<close> returns the black hole active, in phase \<open>pulling\<close>, at progress 0, with
  \<open>hasTriggeredThisGame\<close> set, and the status still \<open>playing\<close>: no collision is evaluated,
  whatever the bird and the pipes of the tick are. Once \<open>hasTriggeredThisGame\<close> is set, a
  tick keeps it set and never activates the black hole again, and neither a configuration
  update nor a jump within the game clears it: the event fires at most once per game.
\<close>

theorem record_break_preempts_collisions:
  "(status s = Playing \<and> \<not> truthy (waitingToResume (blackHole s))
      \<and> \<not> bh_active (blackHole s)
      \<and> tickWorld (g\<lparr>frameCount := frameCount g + 1\<rparr>) s = (g2, nb, np, nc, ns)
      \<and> ns > bestScore s \<and> bestScore s > 0 \<and> \<not> hasTriggeredThisGame (blackHole s)
    \<longrightarrow> blackHole (snd (updateGame g s))
          = \<lparr>bh_active = True, bh_progress = 0, bh_phase = Pulling,
             hasTriggeredThisGame = True, waitingToResume = None\<rparr>
        \<and> status (snd (updateGame g s)) = Playing
        \<and> bird (snd (updateGame g s)) = nb \<and> pipes (snd (updateGame g s)) = np
        \<and> score (snd (updateGame g s)) = ns \<and> bestScore (snd (updateGame g s)) = ns)
   \<and> (hasTriggeredThisGame (blackHole s)
        \<longrightarrow> hasTriggeredThisGame (blackHole (snd (updateGame g s)))
            \<and> hasTriggeredThisGame (blackHole (updateConfig s u))
            \<and> (status s \<noteq> Over \<longrightarrow> hasTriggeredThisGame (blackHole (snd (handleJump g s))))
            \<and> (\<not> bh_active (blackHole s)
                 \<longrightarrow> \<not> bh_active (blackHole (snd (updateGame g s)))))"
proof -
  have "blackHole (snd (updateGame g s))
          = \<lparr>bh_active = True, bh_progress = 0, bh_phase = Pulling,
             hasTriggeredThisGame = True, waitingToResume = None\<rparr>
        \<and> status (snd (updateGame g s)) = Playing
        \<and> bird (snd (updateGame g s)) = nb \<and> pipes (snd (updateGame g s)) = np
        \<and> score (snd (updateGame g s)) = ns \<and> bestScore (snd (updateGame g s)) = ns"
    if "status s = Playing" "\<not> truthy (waitingToResume (blackHole s))"
      "\<not> bh_active (blackHole s)"
      "tickWorld (g\<lparr>frameCount := frameCount g + 1\<rparr>) s = (g2, nb, np, nc, ns)"
      "ns > bestScore s" "bestScore s > 0" "\<not> hasTriggeredThisGame (blackHole s)"
    using that by (simp add: updateGame_def Let_def)
  then show ?thesis
    using updateGame_keeps_triggered[of s g] updateGame_no_second_trigger[of s g]
      commands_keep_triggered[of s u g]
    by blast
qed

text \<open>
  A game with score 4 and best score 4: the tick passes a pipe, which makes the score 5,
  while the bird is below the ground line. The event fires and the game goes on; on the
  state returned, the next tick leaves the flag set.
\<close>

theorem record_break_preempts_collisions_witness:
  "isBirdOutOfBounds (createBird\<lparr>bird_velocity := 0.4, bird_y := 600.4, bird_jumpTime := 1\<rparr>)
   \<and> blackHole (snd (updateGame exampleGlobals
        ((exampleState 4 4 [examplePipe 10 60])\<lparr>bird := createBird\<lparr>bird_y := 600\<rparr>\<rparr>)))
      = \<lparr>bh_active = True, bh_progress = 0, bh_phase = Pulling,
         hasTriggeredThisGame = True, waitingToResume = None\<rparr>
   \<and> status (snd (updateGame exampleGlobals
        ((exampleState 4 4 [examplePipe 10 60])\<lparr>bird := createBird\<lparr>bird_y := 600\<rparr>\<rparr>))) = Playing
   \<and> bird (snd (updateGame exampleGlobals
        ((exampleState 4 4 [examplePipe 10 60])\<lparr>bird := createBird\<lparr>bird_y := 600\<rparr>\<rparr>)))
      = createBird\<lparr>bird_velocity := 0.4, bird_y := 600.4, bird_jumpTime := 1\<rparr>
   \<and> score (snd (updateGame exampleGlobals
        ((exampleState 4 4 [examplePipe 10 60])\<lparr>bird := createBird\<lparr>bird_y := 600\<rparr>\<rparr>))) = 5
   \<and> hasTriggeredThisGame (blackHole (snd (updateGame exampleGlobals (blackHoleState Playing []))))"
proof -
  let ?s = "(exampleState 4 4 [examplePipe 10 60])\<lparr>bird := createBird\<lparr>bird_y := 600\<rparr>\<rparr>"
  let ?b = "createBird\<lparr>bird_velocity := 0.4, bird_y := 600.4, bird_jumpTime := 1\<rparr>"
  let ?p = "\<lparr>pipe_x = 530, pipe_topHeight = 80, pipe_bottomY = 240, pipe_width = 60,
      pipe_passed = False, isGhost = None, isRevealed = None, isElectric = None,
      electricActive = None, electricCycleTime = None, electricOnDuration = None,
      electricOffDuration = None\<rparr>"
  let ?g = "\<lparr>frameCount = 1, idCounter = 0, rng = \<lambda>n. 0\<rparr>"
  have pre: "status ?s = Playing" "\<not> truthy (waitingToResume (blackHole ?s))"
    "\<not> bh_active (blackHole ?s)" "bestScore ?s > 0" "\<not> hasTriggeredThisGame (blackHole ?s)"
    "bestScore ?s = 4" "score ?s = 4"
    by (simp_all add: example_defs truthy_def)
  have c: "tickChaos (exampleGlobals\<lparr>frameCount := frameCount exampleGlobals + 1\<rparr>) ?s
             = (createInitialChaos, ?g)"
    by (simp add: chaos_tick_defs const_defs example_defs)
  have b: "tickBird ?s createInitialChaos = ?b"
    by (simp add: bird_tick_defs const_defs example_defs)
  have p: "tickPipes ?g ?s createInitialChaos ?b = ([examplePipe 6 60, ?p], ?g)"
    by (simp add: pipe_tick_defs const_defs example_defs)
  have k: "countPassedPipes ?b [examplePipe 6 60, ?p]
             = ([(examplePipe 6 60)\<lparr>pipe_passed := True\<rparr>, ?p], 1)"
    by (simp add: countPassedPipes_def const_defs example_defs)
  have w: "tickWorld (exampleGlobals\<lparr>frameCount := frameCount exampleGlobals + 1\<rparr>) ?s
             = (?g, ?b, [(examplePipe 6 60)\<lparr>pipe_passed := True\<rparr>, ?p], createInitialChaos, 5)"
    using tickWorld_stages[OF c b p k] pre by simp
  have out: "isBirdOutOfBounds ?b"
    by (simp add: isBirdOutOfBounds_def const_defs example_defs)
  have t: "hasTriggeredThisGame (blackHole (blackHoleState Playing []))"
    by (simp add: example_defs)
  note r = record_break_preempts_collisions[of ?s exampleGlobals ?g ?b _ createInitialChaos 5]
  have "status ?s = Playing \<and> \<not> truthy (waitingToResume (blackHole ?s))
      \<and> \<not> bh_active (blackHole ?s)
      \<and> tickWorld (exampleGlobals\<lparr>frameCount := frameCount exampleGlobals + 1\<rparr>) ?s
           = (?g, ?b, [(examplePipe 6 60)\<lparr>pipe_passed := True\<rparr>, ?p], createInitialChaos, 5)
      \<and> 5 > bestScore ?s \<and> bestScore ?s > 0 \<and> \<not> hasTriggeredThisGame (blackHole ?s)"
    using pre w by simp
  from r[THEN conjunct1, THEN mp, OF this] out
    record_break_preempts_collisions[of "blackHoleState Playing []" exampleGlobals,
      THEN conjunct2, THEN mp, OF t, THEN conjunct1]
  show ?thesis by simp
qed


section \<open>The chaos flag of the configuration and of the chaos state\<close>

text \<open>
  C6 fails on \<open>restartGame\<close>. Enabling chaos on the initial state gives a state whose two
  flags agree; \<open>restartGame\<close> on that state keeps the configuration, with chaos enabled,
  and takes the chaos state of \<open>createInitialState\<close>, whose flag is false.
\<close>

theorem restartGame_desynchronises:
  "chaosEnabled (config (updateConfig (createInitialState 0) enableChaos))
   \<and> enabled (chaos (updateConfig (createInitialState 0) enableChaos))
   \<and> chaosEnabled (config (restartGame (updateConfig (createInitialState 0) enableChaos)))
   \<and> \<not> enabled (chaos (restartGame (updateConfig (createInitialState 0) enableChaos)))"
  by (simp add: restartGame_def updateConfig_def merge_def enableChaos_def
        createInitialState_def createInitialChaos_def Let_def)

text \<open>
  The other operations keep the two flags equal: \<open>updateConfig\<close> and \<open>startGame\<close> set the
  flag of the chaos state from the configuration, and a tick or a jump preserves equality.
\<close>

lemma chaos_flag_synchronised:
  "enabled (chaos (updateConfig s u)) = chaosEnabled (config (updateConfig s u))"
  "enabled (chaos (snd (startGame g s))) = chaosEnabled (config (snd (startGame g s)))"
  "enabled (chaos s) = chaosEnabled (config s) \<Longrightarrow>
     enabled (chaos (snd (handleJump g s))) = chaosEnabled (config (snd (handleJump g s)))"
  "enabled (chaos s) = chaosEnabled (config s) \<Longrightarrow>
     enabled (chaos (snd (updateGame g s))) = chaosEnabled (config (snd (updateGame g s)))"
proof -
  show "enabled (chaos (updateConfig s u)) = chaosEnabled (config (updateConfig s u))"
    by (simp add: updateConfig_def Let_def)
  show "enabled (chaos (snd (startGame g s))) = chaosEnabled (config (snd (startGame g s)))"
    by (simp add: startGame_def)
  show "enabled (chaos (snd (handleJump g s))) = chaosEnabled (config (snd (handleJump g s)))"
    if "enabled (chaos s) = chaosEnabled (config s)"
    using that by (simp add: handleJump_def startGame_def restartGame_def)
  show "enabled (chaos (snd (updateGame g s))) = chaosEnabled (config (snd (updateGame g s)))"
    if "enabled (chaos s) = chaosEnabled (config s)"
  proof -
    obtain nc g1 np g2 sp k where
      "tickChaos (g\<lparr>frameCount := frameCount g + 1\<rparr>) s = (nc, g1)"
      "tickWorld (g\<lparr>frameCount := frameCount g + 1\<rparr>) s
         = (g2, tickBird s nc, sp, nc, score s + k)"
      by (rule tickWorld_cases)
    moreover from this have "enabled nc = enabled (chaos s)"
      using tickChaos_enabled[of "g\<lparr>frameCount := frameCount g + 1\<rparr>" s] by simp
    ultimately show ?thesis
      using that by (simp add: updateGame_def blackHoleTick_def Let_def)
  qed
qed


section \<open>Gravity-flip zones\<close>

lemma updateGame_chaos_bird:
  assumes "status s = Playing" "\<not> truthy (waitingToResume (blackHole s))"
    and "\<not> bh_active (blackHole s)"
  shows "chaos (snd (updateGame g s)) = fst (tickChaos (g\<lparr>frameCount := frameCount g + 1\<rparr>) s)"
    and "bird (snd (updateGame g s))
           = tickBird s (fst (tickChaos (g\<lparr>frameCount := frameCount g + 1\<rparr>) s))"
proof -
  obtain nc g1 np g2 sp k where
    "tickChaos (g\<lparr>frameCount := frameCount g + 1\<rparr>) s = (nc, g1)"
    "tickWorld (g\<lparr>frameCount := frameCount g + 1\<rparr>) s
       = (g2, tickBird s nc, sp, nc, score s + k)"
    by (rule tickWorld_cases)
  with assms
  show "chaos (snd (updateGame g s)) = fst (tickChaos (g\<lparr>frameCount := frameCount g + 1\<rparr>) s)"
    and "bird (snd (updateGame g s))
           = tickBird s (fst (tickChaos (g\<lparr>frameCount := frameCount g + 1\<rparr>) s))"
    by (simp_all add: updateGame_def Let_def)
qed

lemma tickChaos_no_flips:
  assumes "gravityFlips (chaos s) = []" "gravityMultiplier (chaos s) = 1"
  shows "gravityFlips (fst (tickChaos g s)) = []"
    and "gravityMultiplier (fst (tickChaos g s)) = 1"
  using assms
  by (simp_all add: tickChaos_def updateChaos_def spawnHazards_frame
        checkGravityFlipTrigger_def Let_def split_def)

lemma updateGame_no_flips:
  assumes "gravityFlips (chaos s) = []" "gravityMultiplier (chaos s) = 1"
  shows "gravityFlips (chaos (snd (updateGame g s))) = []
         \<and> gravityMultiplier (chaos (snd (updateGame g s))) = 1"
proof (cases "status s = Playing \<and> \<not> truthy (waitingToResume (blackHole s))")
  case False
  with assms show ?thesis by (auto simp: updateGame_def)
next
  case True
  show ?thesis
  proof (cases "bh_active (blackHole s)")
    case True
    with assms show ?thesis by (simp add: updateGame_def blackHoleTick_def Let_def)
  next
    case False
    with True assms show ?thesis
      by (simp add: updateGame_chaos_bird(1) tickChaos_no_flips)
  qed
qed

lemma runCommand_no_flips:
  assumes "gravityFlips (chaos (snd gs)) = []" "gravityMultiplier (chaos (snd gs)) = 1"
  shows "gravityFlips (chaos (snd (runCommand c gs))) = []
         \<and> gravityMultiplier (chaos (snd (runCommand c gs))) = 1"
proof (cases gs)
  case (Pair g s)
  with assms have s: "gravityFlips (chaos s) = []" "gravityMultiplier (chaos s) = 1"
    by simp_all
  show ?thesis
  proof (cases c)
    case Jump
    with Pair s show ?thesis
      by (simp add: handleJump_def startGame_def restartGame_def createInitialState_def
            createInitialChaos_def)
  next
    case Tick
    with Pair updateGame_no_flips[OF s] show ?thesis by simp
  next
    case (Configure u)
    with Pair s show ?thesis by (simp add: updateConfig_def Let_def)
  next
    case Restart
    with Pair show ?thesis
      by (simp add: restartGame_def createInitialState_def createInitialChaos_def)
  qed
qed

lemma fold_runCommand_no_flips:
  "gravityFlips (chaos (snd gs)) = [] \<Longrightarrow> gravityMultiplier (chaos (snd gs)) = 1 \<Longrightarrow>
     gravityFlips (chaos (snd (fold runCommand cmds gs))) = []
     \<and> gravityMultiplier (chaos (snd (fold runCommand cmds gs))) = 1"
proof (induction cmds arbitrary: gs)
  case Nil
  then show ?case by simp
next
  case (Cons c cmds)
  from runCommand_no_flips[OF Cons.prems, of c] Cons.IH[of "runCommand c gs"]
  show ?case by simp
qed

text \<open>
  C9. In every state that a sequence of jumps, ticks, configuration updates and restarts
  reaches from the initial state, whatever the generator returns and whatever the carried
  best score is, the list of gravity-flip zones is empty and the gravity multiplier is 1;
  the chaos state that the next tick computes has multiplier 1 as well, so the effective
  gravity of that tick, configured gravity times the multiplier, is the configured gravity.
\<close>

theorem gravity_never_flipped:
  "gravityFlips (chaos (snd (runFrom r best cmds))) = []
   \<and> gravityMultiplier (chaos (snd (runFrom r best cmds))) = 1
   \<and> gravityMultiplier (fst (tickChaos g (snd (runFrom r best cmds)))) = 1
   \<and> gravity (config (snd (runFrom r best cmds)))
       * gravityMultiplier (fst (tickChaos g (snd (runFrom r best cmds))))
       = gravity (config (snd (runFrom r best cmds)))"
proof -
  have init: "gravityFlips (chaos (snd (initialGlobals r, createInitialState best))) = []"
    "gravityMultiplier (chaos (snd (initialGlobals r, createInitialState best))) = 1"
    by (simp_all add: createInitialState_def createInitialChaos_def)
  from fold_runCommand_no_flips[OF init, of cmds]
  have inv: "gravityFlips (chaos (snd (runFrom r best cmds))) = []"
    "gravityMultiplier (chaos (snd (runFrom r best cmds))) = 1"
    by (simp_all add: runFrom_def)
  with tickChaos_no_flips[OF inv, of g] show ?thesis by simp
qed

text \<open>
  Chaos is switched on, the game is started, and four ticks run: the game is in progress
  with chaos enabled, and there is no zone.
\<close>

theorem gravity_never_flipped_witness:
  "status (snd (runFrom (\<lambda>n. 0) 0 [Configure enableChaos, Jump])) = Playing
   \<and> enabled (chaos (snd (runFrom (\<lambda>n. 0) 0 [Configure enableChaos, Jump])))
   \<and> chaosEnabled (config (snd (runFrom (\<lambda>n. 0) 0 [Configure enableChaos, Jump])))
   \<and> gravityFlips (chaos (snd (runFrom (\<lambda>n. 0) 0
        [Configure enableChaos, Jump, Tick, Tick, Jump, Tick, Tick]))) = []
   \<and> gravityMultiplier (chaos (snd (runFrom (\<lambda>n. 0) 0
        [Configure enableChaos, Jump, Tick, Tick, Jump, Tick, Tick]))) = 1"
proof -
  have "status (snd (runFrom (\<lambda>n. 0) 0 [Configure enableChaos, Jump])) = Playing
   \<and> enabled (chaos (snd (runFrom (\<lambda>n. 0) 0 [Configure enableChaos, Jump])))
   \<and> chaosEnabled (config (snd (runFrom (\<lambda>n. 0) 0 [Configure enableChaos, Jump])))"
    by (simp add: runFrom_def handleJump_def startGame_def updateConfig_def merge_def
          truthy_def Let_def example_defs)
  then show ?thesis
    using gravity_never_flipped[of "\<lambda>n. 0" 0
        "[Configure enableChaos, Jump, Tick, Tick, Jump, Tick, Tick]" exampleGlobals]
    by simp
qed



lemma runFrom_no_flips:
  "gravityFlips (chaos (snd (runFrom r best cmds))) = []"
  "gravityMultiplier (chaos (snd (runFrom r best cmds))) = 1"
proof -
  have init: "gravityFlips (chaos (snd (initialGlobals r, createInitialState best))) = []"
    "gravityMultiplier (chaos (snd (initialGlobals r, createInitialState best))) = 1"
    by (simp_all add: createInitialState_def createInitialChaos_def)
  from fold_runCommand_no_flips[OF init, of cmds]
  show "gravityFlips (chaos (snd (runFrom r best cmds))) = []"
    and "gravityMultiplier (chaos (snd (runFrom r best cmds))) = 1"
    by (simp_all add: runFrom_def)
qed



section \<open>The end of the black-hole animation (updateGame, lines 141 to 182)\<close>

text \<open>
  While the black hole is active the game is in progress and not waiting to resume: the
  trigger sets the flag in a game in progress and leaves \<open>waitingToResume\<close> out, the end of
  the animation clears the flag when it sets \<open>waitingToResume\<close>, and no command ends the
  game or restarts it with the flag set.
\<close>

lemma updateGame_active_playing:
  assumes "bh_active (blackHole s) \<longrightarrow>
             status s = Playing \<and> \<not> truthy (waitingToResume (blackHole s))"
  shows "bh_active (blackHole (snd (updateGame g s))) \<longrightarrow>
           status (snd (updateGame g s)) = Playing
           \<and> \<not> truthy (waitingToResume (blackHole (snd (updateGame g s))))"
proof (cases "status s = Playing \<and> \<not> truthy (waitingToResume (blackHole s))")
  case False
  with assms show ?thesis by (auto simp: updateGame_def)
next
  case True
  show ?thesis
  proof (cases "bh_active (blackHole s)")
    case True
    with \<open>status s = Playing \<and> \<not> truthy (waitingToResume (blackHole s))\<close>
    show ?thesis
      by (simp add: updateGame_def blackHoleTick_def truthy_def Let_def)
  next
    case False
    obtain nc g1 np g2 sp k where
      "tickChaos (g\<lparr>frameCount := frameCount g + 1\<rparr>) s = (nc, g1)"
      "tickPipes g1 s nc (tickBird s nc) = (np, g2)"
      "countPassedPipes (tickBird s nc) np = (sp, k)"
      "tickWorld (g\<lparr>frameCount := frameCount g + 1\<rparr>) s
         = (g2, tickBird s nc, sp, nc, score s + k)"
      by (rule tickWorld_cases)
    with True False show ?thesis
      by (simp add: updateGame_def truthy_def Let_def)
  qed
qed

lemma runCommand_active_playing:
  assumes "bh_active (blackHole (snd gs)) \<longrightarrow>
             status (snd gs) = Playing \<and> \<not> truthy (waitingToResume (blackHole (snd gs)))"
  shows "bh_active (blackHole (snd (runCommand c gs))) \<longrightarrow>
           status (snd (runCommand c gs)) = Playing
           \<and> \<not> truthy (waitingToResume (blackHole (snd (runCommand c gs))))"
proof (cases gs)
  case (Pair g s)
  with assms have s: "bh_active (blackHole s) \<longrightarrow>
      status s = Playing \<and> \<not> truthy (waitingToResume (blackHole s))"
    by simp
  show ?thesis
  proof (cases c)
    case Jump
    with Pair s show ?thesis
      by (simp add: handleJump_def startGame_def restartGame_def createInitialState_def
            createInitialBlackHole_def truthy_def)
  next
    case Tick
    with Pair updateGame_active_playing[OF s, of g] show ?thesis by simp
  next
    case (Configure u)
    with Pair s show ?thesis by (simp add: updateConfig_def Let_def)
  next
    case Restart
    with Pair show ?thesis
      by (simp add: restartGame_def createInitialState_def createInitialBlackHole_def)
  qed
qed

lemma runFrom_active_playing:
  "bh_active (blackHole (snd (runFrom r best cmds))) \<Longrightarrow>
     status (snd (runFrom r best cmds)) = Playing
     \<and> \<not> truthy (waitingToResume (blackHole (snd (runFrom r best cmds))))"
proof -
  have "bh_active (blackHole (snd (fold runCommand cmds gs))) \<longrightarrow>
          status (snd (fold runCommand cmds gs)) = Playing
          \<and> \<not> truthy (waitingToResume (blackHole (snd (fold runCommand cmds gs))))"
    if "bh_active (blackHole (snd gs)) \<longrightarrow>
          status (snd gs) = Playing \<and> \<not> truthy (waitingToResume (blackHole (snd gs)))"
    for gs
    using that
  proof (induction cmds arbitrary: gs)
    case Nil
    then show ?case by simp
  next
    case (Cons c cmds)
    from Cons.IH[OF runCommand_active_playing[OF Cons.prems, of c]]
    show ?case by simp
  qed
  from this[of "(initialGlobals r, createInitialState best)"]
  show "bh_active (blackHole (snd (runFrom r best cmds))) \<Longrightarrow>
     status (snd (runFrom r best cmds)) = Playing
     \<and> \<not> truthy (waitingToResume (blackHole (snd (runFrom r best cmds))))"
    by (simp add: runFrom_def createInitialState_def createInitialBlackHole_def)
qed

lemma blackHoleTick_completes:
  assumes "status s = Playing" "\<not> truthy (waitingToResume (blackHole s))"
    and "bh_active (blackHole s)" "bh_progress (blackHole s) + 1 / 150 \<ge> 1"
  shows "snd (updateGame g s) =
     s\<lparr>pipes := [],
       bird := (bird s)\<lparr>bird_velocity := 0, bird_y := 320, bird_x := 80\<rparr>,
       blackHole := (blackHole s)\<lparr>bh_active := False, bh_progress := 0, bh_phase := NoPhase,
                                  waitingToResume := Some True\<rparr>,
       chaos := (chaos s)\<lparr>electricPillars := [], gammaRays := [], vortexes := [],
                          particles := []\<rparr>\<rparr>"
  using assms
  by (simp add: updateGame_def blackHoleTick_def BLACK_HOLE_DURATION_def CANVAS_height_def
        Let_def)

text \<open>
  C4, as the code has it. Let \<open>s\<close> be any state that a sequence of jumps, ticks,
  configuration updates and restarts reaches from the initial state. If the black hole
  of \<open>s\<close> is active and its progress plus 1/150 reaches or exceeds 1, \<open>updateGame\<close> returns
  a state with no pipes and with every hazard list empty (electric pillars, gamma rays,
  gravity flips, vortexes and particles), the bird at rest (velocity 0) at \<open>y = 320\<close>, the
  centre of the screen, and \<open>x = 80\<close>, and the black hole inactive at progress 0 in phase
  \<open>none\<close>, waiting to resume. If \<open>s\<close> is waiting to resume, \<open>updateGame\<close> returns it unchanged,
  \<open>updateConfig\<close> keeps the flag, and \<open>handleJump\<close> clears the flag and applies the jump
  impulse; \<open>restartGame\<close> clears the flag too, in the fresh game it returns, whose bird is
  at rest.
\<close>

theorem black_hole_completion_reachable:
  "(let s = snd (runFrom r best cmds)
    in (bh_active (blackHole s) \<and> bh_progress (blackHole s) + 1 / 150 \<ge> 1
        \<longrightarrow> pipes (snd (updateGame g s)) = []
            \<and> electricPillars (chaos (snd (updateGame g s))) = []
            \<and> gammaRays (chaos (snd (updateGame g s))) = []
            \<and> gravityFlips (chaos (snd (updateGame g s))) = []
            \<and> vortexes (chaos (snd (updateGame g s))) = []
            \<and> particles (chaos (snd (updateGame g s))) = []
            \<and> bird (snd (updateGame g s))
                = (bird s)\<lparr>bird_velocity := 0, bird_y := 320, bird_x := 80\<rparr>
            \<and> blackHole (snd (updateGame g s))
                = (blackHole s)\<lparr>bh_active := False, bh_progress := 0, bh_phase := NoPhase,
                                 waitingToResume := Some True\<rparr>
            \<and> status (snd (updateGame g s)) = Playing)
       \<and> (truthy (waitingToResume (blackHole s))
            \<longrightarrow> updateGame g s = (g, s)
                \<and> waitingToResume (blackHole (updateConfig s u))
                    = waitingToResume (blackHole s)
                \<and> handleJump g s =
                     (g, s\<lparr>bird := jumpBird (bird s) (jumpHeight (config s))
                                      (physicsType (config s)),
                            blackHole := (blackHole s)\<lparr>waitingToResume := Some False\<rparr>\<rparr>)
                \<and> waitingToResume (blackHole (restartGame s)) = Some False
                \<and> bird (restartGame s) = createBird))"
proof -
  let ?s = "snd (runFrom r best cmds)"
  have fin: "pipes (snd (updateGame g ?s)) = []
            \<and> electricPillars (chaos (snd (updateGame g ?s))) = []
            \<and> gammaRays (chaos (snd (updateGame g ?s))) = []
            \<and> gravityFlips (chaos (snd (updateGame g ?s))) = []
            \<and> vortexes (chaos (snd (updateGame g ?s))) = []
            \<and> particles (chaos (snd (updateGame g ?s))) = []
            \<and> bird (snd (updateGame g ?s))
                = (bird ?s)\<lparr>bird_velocity := 0, bird_y := 320, bird_x := 80\<rparr>
            \<and> blackHole (snd (updateGame g ?s))
                = (blackHole ?s)\<lparr>bh_active := False, bh_progress := 0, bh_phase := NoPhase,
                                 waitingToResume := Some True\<rparr>
            \<and> status (snd (updateGame g ?s)) = Playing"
    if a: "bh_active (blackHole ?s)" "bh_progress (blackHole ?s) + 1 / 150 \<ge> 1"
  proof -
    from runFrom_active_playing[OF a(1)]
    have p: "status ?s = Playing" "\<not> truthy (waitingToResume (blackHole ?s))"
      by simp_all
    show ?thesis
      unfolding blackHoleTick_completes[OF p a]
      using p(1) runFrom_no_flips(1)[of r best cmds] by simp
  qed
  have wait: "updateGame g ?s = (g, ?s)
                \<and> waitingToResume (blackHole (updateConfig ?s u))
                    = waitingToResume (blackHole ?s)
                \<and> handleJump g ?s =
                     (g, ?s\<lparr>bird := jumpBird (bird ?s) (jumpHeight (config ?s))
                                      (physicsType (config ?s)),
                            blackHole := (blackHole ?s)\<lparr>waitingToResume := Some False\<rparr>\<rparr>)
                \<and> waitingToResume (blackHole (restartGame ?s)) = Some False
                \<and> bird (restartGame ?s) = createBird"
    if w: "truthy (waitingToResume (blackHole ?s))"
  proof -
    from runFrom_active_playing[of r best cmds] w
    have "\<not> bh_active (blackHole ?s)" by blast
    with w show ?thesis
      by (simp add: updateGame_def handleJump_def updateConfig_def restartGame_def
            createInitialState_def createInitialBlackHole_def Let_def)
  qed
  show ?thesis
    unfolding Let_def using fin wait by blast
qed

text \<open>
  The record-breaking run: after its 223 ticks the black hole is active at progress
  149/150 with three pipes on the field; the next tick clears the field and waits; the
  jump that follows clears the flag and gives the bird the jump velocity \<open>-3\<close>.
\<close>

theorem black_hole_completion_reachable_witness:
  "bh_active (blackHole (snd (runFrom (\<lambda>n. 0) 1 recordRun)))
   \<and> bh_progress (blackHole (snd (runFrom (\<lambda>n. 0) 1 recordRun))) + 1 / 150 \<ge> 1
   \<and> length (pipes (snd (runFrom (\<lambda>n. 0) 1 recordRun))) = 3
   \<and> pipes (snd (runFrom (\<lambda>n. 0) 1 (recordRun @ [Tick]))) = []
   \<and> bird_y (bird (snd (runFrom (\<lambda>n. 0) 1 (recordRun @ [Tick])))) = 320
   \<and> bird_velocity (bird (snd (runFrom (\<lambda>n. 0) 1 (recordRun @ [Tick])))) = 0
   \<and> truthy (waitingToResume (blackHole (snd (runFrom (\<lambda>n. 0) 1 (recordRun @ [Tick])))))
   \<and> snd (runFrom (\<lambda>n. 0) 1 (recordRun @ [Tick, Tick]))
       = snd (runFrom (\<lambda>n. 0) 1 (recordRun @ [Tick]))
   \<and> waitingToResume (blackHole (snd (runFrom (\<lambda>n. 0) 1 (recordRun @ [Tick, Jump]))))
       = Some False
   \<and> bird_velocity (bird (snd (runFrom (\<lambda>n. 0) 1 (recordRun @ [Tick, Jump])))) = - 3"
proof -
  let ?a = "runFrom (\<lambda>n. 0) 1 recordRun"
  let ?w = "runFrom (\<lambda>n. 0) 1 (recordRun @ [Tick])"
  have a: "bh_active (blackHole (snd ?a)) \<and> bh_progress (blackHole (snd ?a)) + 1 / 150 \<ge> 1"
    and n: "length (pipes (snd ?a)) = 3"
    unfolding recordRun_state by simp_all
  have w_eq: "?w = updateGame (fst ?a) (snd ?a)"
    by (cases ?a) (simp add: runFrom_snoc)
  note fin = black_hole_completion_reachable[of "\<lambda>n. 0" 1 recordRun "fst ?a",
      unfolded Let_def, THEN conjunct1, THEN mp, OF a, folded w_eq]
  then have w: "truthy (waitingToResume (blackHole (snd ?w)))"
    by (simp add: truthy_def)
  note wait = black_hole_completion_reachable[of "\<lambda>n. 0" 1 "recordRun @ [Tick]" "fst ?w",
      unfolded Let_def, THEN conjunct2, THEN mp, OF w]
  have tt: "runFrom (\<lambda>n. 0) 1 (recordRun @ [Tick, Tick]) = updateGame (fst ?w) (snd ?w)"
    and tj: "runFrom (\<lambda>n. 0) 1 (recordRun @ [Tick, Jump]) = handleJump (fst ?w) (snd ?w)"
    using runFrom_snoc[of "\<lambda>n. 0" 1 "recordRun @ [Tick]" Tick]
      runFrom_snoc[of "\<lambda>n. 0" 1 "recordRun @ [Tick]" Jump]
    by (cases ?w, simp)+
  have cfg: "jumpHeight (config (snd ?w)) = 3" "physicsType (config (snd ?w)) = Parabolic"
    unfolding w_eq recordRun_state
    by (simp_all add: updateGame_def blackHoleTick_def truthy_def Let_def)
  have v: "bird_velocity (bird (snd ?a)\<lparr>bird_velocity := 0, bird_y := 320, bird_x := 80\<rparr>) = 0"
    by simp
  show ?thesis
    using a n fin w wait cfg unfolding tt tj
    by (simp add: jumpBird_def)
qed

text \<open>
  C4 as stated fails on its last clause. In the state that the record-breaking run
  reaches, which is waiting to resume, it is \<open>restartGame\<close>, not \<open>handleJump\<close>, that clears
  \<open>waitingToResume\<close>: the state it returns is ready, with the flag false and the bird at
  rest, no impulse applied.
\<close>

theorem restart_clears_waiting_counterexample:
  "truthy (waitingToResume (blackHole (snd (runFrom (\<lambda>n. 0) 1 (recordRun @ [Tick])))))
   \<and> waitingToResume (blackHole (snd (runFrom (\<lambda>n. 0) 1 (recordRun @ [Tick, Restart]))))
       = Some False
   \<and> bird_velocity (bird (snd (runFrom (\<lambda>n. 0) 1 (recordRun @ [Tick, Restart])))) = 0
   \<and> status (snd (runFrom (\<lambda>n. 0) 1 (recordRun @ [Tick, Restart]))) = Ready"
proof -
  have w: "runFrom (\<lambda>n. 0) 1 (recordRun @ [Tick])
             = updateGame (fst (runFrom (\<lambda>n. 0) 1 recordRun)) (snd (runFrom (\<lambda>n. 0) 1 recordRun))"
    by (cases "runFrom (\<lambda>n. 0) 1 recordRun") (simp add: runFrom_snoc)
  have r: "runFrom (\<lambda>n. 0) 1 (recordRun @ [Tick, Restart])
             = runCommand Restart (runFrom (\<lambda>n. 0) 1 (recordRun @ [Tick]))"
    using runFrom_snoc[of "\<lambda>n. 0" 1 "recordRun @ [Tick]" Restart] by simp
  show ?thesis
    unfolding r w recordRun_state
    by (simp add: updateGame_def blackHoleTick_def restartGame_def createInitialState_def
          createInitialBlackHole_def createBird_def truthy_def BLACK_HOLE_DURATION_def
          Let_def)
qed

section \<open>Ghost pipes\<close>

lemma tickPipes_unrevealed_far:
  assumes "chaosEnabled (config s)" "p \<in> set (fst (tickPipes g s nc nb))"
    and "truthy (isGhost p)" "\<not> truthy (isRevealed p)"
  shows "bird_x nb + bird_width nb \<le> pipe_x p - 50"
proof -
  from assms(1,2) obtain q where "p = revealSchrodingerPipe q nb"
    by (auto simp: tickPipes_def Let_def split_def)
  with assms(3,4) show ?thesis
    by (auto simp: revealSchrodingerPipe_def truthy_def split: if_splits)
qed

lemma countPassedPipes_ghost:
  assumes "p \<in> set (fst (countPassedPipes b ps))"
  shows "\<exists>q \<in> set ps. isGhost p = isGhost q \<and> isRevealed p = isRevealed q
                      \<and> pipe_x p = pipe_x q"
  using assms by (auto simp: countPassedPipes_def countPassedLoop_eq split: if_splits)

lemma unrevealed_far_no_collision:
  assumes "\<forall>p \<in> set ps. truthy (isGhost p) \<and> \<not> truthy (isRevealed p)
             \<longrightarrow> bird_x b + bird_width b \<le> pipe_x p - 50"
  shows "checkAnyCollision b (filter (\<lambda>p. \<not> truthy (isGhost p) \<or> \<not> truthy (isRevealed p)) ps)
         = checkAnyCollision b (filter (\<lambda>p. \<not> truthy (isGhost p)) ps)"
proof -
  have "\<not> checkPipeCollision b p"
    if "p \<in> set ps" "truthy (isGhost p)" "\<not> truthy (isRevealed p)" for p
  proof -
    from assms that have "bird_x b + bird_width b \<le> pipe_x p - 50" by blast
    then show ?thesis by (simp add: checkPipeCollision_def Let_def)
  qed
  then show ?thesis
    unfolding checkAnyCollision_def list_ex_iff by auto
qed

lemma tick_unrevealed_far:
  assumes "status s = Playing" "\<not> truthy (waitingToResume (blackHole s))"
    and "\<not> bh_active (blackHole s)" "chaosEnabled (config s)"
    and "p \<in> set (pipes (snd (updateGame g s)))"
    and "truthy (isGhost p)" "\<not> truthy (isRevealed p)"
  shows "bird_x (bird (snd (updateGame g s))) + bird_width (bird (snd (updateGame g s)))
           \<le> pipe_x p - 50"
proof -
  obtain nc g1 np g2 sp k where st:
    "tickChaos (g\<lparr>frameCount := frameCount g + 1\<rparr>) s = (nc, g1)"
    "tickPipes g1 s nc (tickBird s nc) = (np, g2)"
    "countPassedPipes (tickBird s nc) np = (sp, k)"
    "tickWorld (g\<lparr>frameCount := frameCount g + 1\<rparr>) s
       = (g2, tickBird s nc, sp, nc, score s + k)"
    by (rule tickWorld_cases)
  from assms(1-3) st(4) have r: "pipes (snd (updateGame g s)) = sp"
    "bird (snd (updateGame g s)) = tickBird s nc"
    by (simp_all add: updateGame_def Let_def)
  from assms(5) r st(3) have "p \<in> set (fst (countPassedPipes (tickBird s nc) np))"
    by simp
  from countPassedPipes_ghost[OF this] obtain q where q: "q \<in> set np"
    "isGhost p = isGhost q" "isRevealed p = isRevealed q" "pipe_x p = pipe_x q"
    by blast
  from q(1) st(2) have "q \<in> set (fst (tickPipes g1 s nc (tickBird s nc)))" by simp
  from tickPipes_unrevealed_far[OF assms(4) this] assms(6,7) q(2,3,4) r(2)
  show ?thesis by simp
qed

lemma tick_status:
  assumes "status s = Playing" "\<not> truthy (waitingToResume (blackHole s))"
    and "\<not> bh_active (blackHole s)" "\<not> bh_active (blackHole (snd (updateGame g s)))"
  shows "(status (snd (updateGame g s)) = Over) =
     (checkAnyCollision (bird (snd (updateGame g s)))
        (filter (\<lambda>p. \<not> truthy (isGhost p) \<or> \<not> truthy (isRevealed p))
           (pipes (snd (updateGame g s))))
      \<or> isBirdOutOfBounds (bird (snd (updateGame g s)))
      \<or> checkChaosCollision (bird (snd (updateGame g s))) (chaos (snd (updateGame g s)))
      \<or> (chaosEnabled (config s)
          \<and> checkElectricPipeCollision (bird (snd (updateGame g s)))
               (pipes (snd (updateGame g s)))))"
proof -
  obtain nc g1 np g2 sp k where st:
    "tickChaos (g\<lparr>frameCount := frameCount g + 1\<rparr>) s = (nc, g1)"
    "tickPipes g1 s nc (tickBird s nc) = (np, g2)"
    "countPassedPipes (tickBird s nc) np = (sp, k)"
    "tickWorld (g\<lparr>frameCount := frameCount g + 1\<rparr>) s
       = (g2, tickBird s nc, sp, nc, score s + k)"
    by (rule tickWorld_cases)
  note u = updateGame_tick[OF assms(1-3) st(1) refl st(2,3)]
  from assms(4) have nt: "\<not> (score s + k > bestScore s \<and> bestScore s > 0
                             \<and> \<not> hasTriggeredThisGame (blackHole s))"
    unfolding u by (auto split: if_splits)
  show ?thesis
    unfolding u using nt assms(1) by (simp split: if_splits)
qed

text \<open>
  The path with chaos enabled. In a tick of normal gameplay with chaos enabled in the
  configuration that does not fire the record-breaking event, the game ends exactly when
  the bird collides with a pipe that is not a ghost, is out of bounds, is hit by a chaos
  hazard or is in an active electrified gap: every ghost still unrevealed after the tick
  lies at least the reveal distance 50 ahead of the bird's leading edge, so no ghost,
  revealed or not, takes part in the pipe-collision test. \<open>revealSchrodingerPipe\<close> reveals
  a pipe that has a ghost status and is not yet revealed exactly when the bird's leading
  edge \<open>x + width\<close> is beyond the pipe's \<open>x - 50\<close>, and never changes the ghost status.
\<close>

lemma ghost_pipes_chaos_enabled:
  "(status s = Playing \<and> \<not> truthy (waitingToResume (blackHole s))
      \<and> \<not> bh_active (blackHole s) \<and> chaosEnabled (config s)
      \<and> \<not> bh_active (blackHole (snd (updateGame g s)))
    \<longrightarrow> ((status (snd (updateGame g s)) = Over) =
           (checkAnyCollision (bird (snd (updateGame g s)))
              (filter (\<lambda>p. \<not> truthy (isGhost p)) (pipes (snd (updateGame g s))))
            \<or> isBirdOutOfBounds (bird (snd (updateGame g s)))
            \<or> checkChaosCollision (bird (snd (updateGame g s))) (chaos (snd (updateGame g s)))
            \<or> checkElectricPipeCollision (bird (snd (updateGame g s)))
                 (pipes (snd (updateGame g s)))))
        \<and> (\<forall>p \<in> set (pipes (snd (updateGame g s))).
              truthy (isGhost p) \<and> \<not> truthy (isRevealed p)
              \<longrightarrow> bird_x (bird (snd (updateGame g s))) + bird_width (bird (snd (updateGame g s)))
                    \<le> pipe_x p - 50))
   \<and> isGhost (revealSchrodingerPipe q b) = isGhost q
   \<and> (isGhost q \<noteq> None \<and> \<not> truthy (isRevealed q)
        \<longrightarrow> truthy (isRevealed (revealSchrodingerPipe q b))
              = (bird_x b + bird_width b > pipe_x q - 50))"
proof -
  have tick: "((status (snd (updateGame g s)) = Over) =
           (checkAnyCollision (bird (snd (updateGame g s)))
              (filter (\<lambda>p. \<not> truthy (isGhost p)) (pipes (snd (updateGame g s))))
            \<or> isBirdOutOfBounds (bird (snd (updateGame g s)))
            \<or> checkChaosCollision (bird (snd (updateGame g s))) (chaos (snd (updateGame g s)))
            \<or> checkElectricPipeCollision (bird (snd (updateGame g s)))
                 (pipes (snd (updateGame g s)))))
        \<and> (\<forall>p \<in> set (pipes (snd (updateGame g s))).
              truthy (isGhost p) \<and> \<not> truthy (isRevealed p)
              \<longrightarrow> bird_x (bird (snd (updateGame g s))) + bird_width (bird (snd (updateGame g s)))
                    \<le> pipe_x p - 50)"
    if a: "status s = Playing" "\<not> truthy (waitingToResume (blackHole s))"
      "\<not> bh_active (blackHole s)" "chaosEnabled (config s)"
      "\<not> bh_active (blackHole (snd (updateGame g s)))"
  proof -
    have far: "\<forall>p \<in> set (pipes (snd (updateGame g s))).
              truthy (isGhost p) \<and> \<not> truthy (isRevealed p)
              \<longrightarrow> bird_x (bird (snd (updateGame g s))) + bird_width (bird (snd (updateGame g s)))
                    \<le> pipe_x p - 50"
      using tick_unrevealed_far[OF a(1-4)] by blast
    show ?thesis
      using tick_status[OF a(1-3,5)] unrevealed_far_no_collision[OF far] far a(4)
      by simp
  qed
  have "isGhost (revealSchrodingerPipe q b) = isGhost q"
    by (simp add: revealSchrodingerPipe_def)
  moreover have "isGhost q \<noteq> None \<and> \<not> truthy (isRevealed q)
        \<longrightarrow> truthy (isRevealed (revealSchrodingerPipe q b))
              = (bird_x b + bird_width b > pipe_x q - 50)"
    by (simp add: revealSchrodingerPipe_def truthy_def)
  ultimately show ?thesis
    using tick by blast
qed



end
